theory Spec2Isabelle
  imports Complex_Main "HOL-Library.Sublist"
begin

section \<open>Python strings\<close>

text \<open>
  A text is a \<open>string\<close>, one \<open>char\<close> per code point; the model covers the code points
  0..255 (ASCII and Latin-1).  Python's \<open>sub in s\<close> on strings is \<open>sublist sub s\<close>.
  Floats hold only small integers in the risk score (0, 25, 55, 85 and integer offsets), so
  the arithmetic on them is exact and is written over \<open>real\<close>.
\<close>

definition is_upper :: "char \<Rightarrow> bool" where
  "is_upper c =
     (let n = (of_char c :: nat)
      in (65 \<le> n \<and> n \<le> 90) \<or> (192 \<le> n \<and> n \<le> 222 \<and> n \<noteq> 215))"

definition lower_char :: "char \<Rightarrow> char" where
  "lower_char c = (if is_upper c then char_of ((of_char c :: nat) + 32) else c)"

definition lower :: "string \<Rightarrow> string" where
  "lower s = map lower_char s"

text \<open>\<open>str.isspace\<close> of one code point, which is also the class \<open>\s\<close> of \<open>re\<close>.\<close>

definition isspace :: "char \<Rightarrow> bool" where
  "isspace c =
     (let n = (of_char c :: nat)
      in (9 \<le> n \<and> n \<le> 13) \<or> (28 \<le> n \<and> n \<le> 32) \<or> n = 133 \<or> n = 160)"

definition strip :: "string \<Rightarrow> string" where
  "strip s = rev (dropWhile isspace (rev (dropWhile isspace s)))"

section \<open>Regular expressions of the risk patterns\<close>

text \<open>
  The patterns use literals, \<open>\s\<close>, grouping, alternation, \<open>?\<close>, \<open>+\<close> and \<open>*\<close> only.
  \<open>re.search\<close> asks whether some substring of the text matches; it is decided here with
  derivatives.
\<close>

datatype rx = Zero | Eps | Ch char | Ws | Cat rx rx | Alt rx rx | Rep rx

fun lit :: "string \<Rightarrow> rx" where
  "lit [] = Eps"
| "lit (c # cs) = Cat (Ch c) (lit cs)"

definition opt :: "rx \<Rightarrow> rx" where
  "opt r = Alt r Eps"

definition plus1 :: "rx \<Rightarrow> rx" where
  "plus1 r = Cat r (Rep r)"

fun alts :: "rx list \<Rightarrow> rx" where
  "alts [] = Zero"
| "alts [r] = r"
| "alts (r # rs) = Alt r (alts rs)"

fun cats :: "rx list \<Rightarrow> rx" where
  "cats [] = Eps"
| "cats [r] = r"
| "cats (r # rs) = Cat r (cats rs)"

fun nullable :: "rx \<Rightarrow> bool" where
  "nullable Zero = False"
| "nullable Eps = True"
| "nullable (Ch c) = False"
| "nullable Ws = False"
| "nullable (Cat r s) = (nullable r \<and> nullable s)"
| "nullable (Alt r s) = (nullable r \<or> nullable s)"
| "nullable (Rep r) = True"

fun deriv :: "char \<Rightarrow> rx \<Rightarrow> rx" where
  "deriv c Zero = Zero"
| "deriv c Eps = Zero"
| "deriv c (Ch d) = (if c = d then Eps else Zero)"
| "deriv c Ws = (if isspace c then Eps else Zero)"
| "deriv c (Cat r s) =
     (if nullable r then Alt (Cat (deriv c r) s) (deriv c s) else Cat (deriv c r) s)"
| "deriv c (Alt r s) = Alt (deriv c r) (deriv c s)"
| "deriv c (Rep r) = Cat (deriv c r) (Rep r)"

text \<open>\<open>match_here r s\<close>: some prefix of \<open>s\<close> matches \<open>r\<close>.\<close>

fun match_here :: "rx \<Rightarrow> string \<Rightarrow> bool" where
  "match_here r [] = nullable r"
| "match_here r (c # cs) = (nullable r \<or> match_here (deriv c r) cs)"

text \<open>\<open>re_search r s\<close>: \<open>re.search(r, s)\<close> finds a match.\<close>

fun re_search :: "rx \<Rightarrow> string \<Rightarrow> bool" where
  "re_search r [] = nullable r"
| "re_search r (c # cs) = (match_here r (c # cs) \<or> re_search r cs)"

section \<open>The risk detector (ai-service, risk-detector.py)\<close>

definition HIGH_RISK_KEYWORDS :: "string list" where
  "HIGH_RISK_KEYWORDS =
     [''kill myself'',
      ''want to die'',
      ''hurt myself'',
      ''end my life'',
      ''suicide'',
      ''self harm'',
      ''self-harm'',
      ''cut myself'',
      ''don't want to live'',
      ''don't want to be alive'',
      ''better off dead'',
      ''no reason to live'',
      ''end it all'',
      ''take my own life'',
      ''overdose'']"

definition MEDIUM_RISK_PATTERNS :: "rx list" where
  "MEDIUM_RISK_PATTERNS =
     [cats [lit ''feel'', opt (lit ''ing''), plus1 Ws, opt (cats [lit ''so'', plus1 Ws]),
            alts [lit ''hopeless'', lit ''worthless'', lit ''empty'', lit ''numb'']],
      cats [alts [lit ''nobody'', cats [lit ''no'', Rep Ws, lit ''one'']], plus1 Ws,
            alts [lit ''cares'', lit ''loves'', lit ''understands'']],
      cats [lit ''can'', opt (Ch (CHR 0x27)), lit ''t'', plus1 Ws,
            alts [lit ''go on'', lit ''take it'', lit ''handle'', lit ''cope'']],
      cats [alts [lit ''hate'', lit ''despise''], plus1 Ws, lit ''myself''],
      cats [alts [lit ''always'', lit ''constantly''], plus1 Ws,
            alts [lit ''sad'', lit ''depressed'', lit ''anxious'']],
      cats [alts [lit ''nothing'', lit ''life''], plus1 Ws,
            alts [lit ''matters'', lit ''has meaning'']],
      cats [alts [lit ''trapped'', lit ''stuck''], plus1 Ws, alts [lit ''in'', lit ''with'']],
      cats [alts [lit ''never'', lit ''won't''], plus1 Ws, lit ''get'', plus1 Ws, lit ''better''],
      cats [lit ''burden'', plus1 Ws, alts [lit ''to'', lit ''on''], plus1 Ws,
            alts [lit ''everyone'', lit ''others'', lit ''family'']]]"

definition LOW_RISK_PATTERNS :: "rx list" where
  "LOW_RISK_PATTERNS =
     [alts [lit ''stressed'', lit ''overwhelmed'', lit ''exhausted''],
      cats [alts [cats [lit ''can'', opt (Ch (CHR 0x27)), lit ''t''],
                  cats [lit ''unable'', plus1 Ws, lit ''to'']], plus1 Ws, lit ''sleep''],
      alts [lit ''lonely'', lit ''isolated'', lit ''alone''],
      cats [alts [lit ''worried'', lit ''anxious''], plus1 Ws, lit ''about''],
      cats [lit ''feeling'', plus1 Ws, alts [lit ''down'', lit ''low'', lit ''blue'']]]"

record risk_assessment =
  level :: string
  score :: real
  factors :: "string list"

text \<open>
  The three scans carry the pair of the factors and the base score through their loops.
\<close>

fun high_risk_scan :: "string list \<Rightarrow> string \<Rightarrow> string list \<times> real \<Rightarrow> string list \<times> real" where
  "high_risk_scan [] text_lower st = st"
| "high_risk_scan (keyword # ks) text_lower (fs, base_score) =
     (if sublist keyword text_lower
      then high_risk_scan ks text_lower
             (fs @ [''High-risk keyword detected: '' @ [CHR 0x27] @ keyword @ [CHR 0x27]],
              max base_score 85)
      else high_risk_scan ks text_lower (fs, base_score))"

fun medium_risk_scan :: "rx list \<Rightarrow> string \<Rightarrow> string list \<times> real \<Rightarrow> string list \<times> real" where
  "medium_risk_scan [] text_lower st = st"
| "medium_risk_scan (pattern # ps) text_lower (fs, base_score) =
     (if re_search pattern text_lower
      then medium_risk_scan ps text_lower
             (fs @ [''Distress pattern detected''], max base_score 55)
      else medium_risk_scan ps text_lower (fs, base_score))"

text \<open>The low-risk loop leaves at its first match (\<open>break\<close>).\<close>

fun low_risk_scan :: "rx list \<Rightarrow> string \<Rightarrow> string list \<times> real \<Rightarrow> string list \<times> real" where
  "low_risk_scan [] text_lower st = st"
| "low_risk_scan (pattern # ps) text_lower (fs, base_score) =
     (if re_search pattern text_lower
      then (fs @ [''Stress indicator detected''],
            if base_score < 40 then max base_score 25 else base_score)
      else low_risk_scan ps text_lower (fs, base_score))"

definition emotion_adjustments :: "(string \<times> real) list" where
  "emotion_adjustments =
     [(''sadness'', 15),
      (''fear'', 12),
      (''anger'', 8),
      (''disgust'', 5),
      (''surprise'', 0),
      (''neutral'', 0),
      (''joy'', -10)]"

text \<open>\<open>emotion_adjustments.get(emotion.lower(), 0)\<close>\<close>

definition adjustment_of :: "string \<Rightarrow> real" where
  "adjustment_of emotion =
     (case map_of emotion_adjustments (lower emotion) of None \<Rightarrow> 0 | Some a \<Rightarrow> a)"

fun emotion_adjust :: "string option \<Rightarrow> string list \<times> real \<Rightarrow> string list \<times> real" where
  "emotion_adjust None st = st"
| "emotion_adjust (Some emotion) (fs, base_score) =
     (if emotion = [] then (fs, base_score)
      else let adjustment = adjustment_of emotion
           in if adjustment \<noteq> 0
              then (if adjustment > 0
                    then fs @ [''Negative emotion detected: '' @ emotion]
                    else fs,
                    base_score + adjustment)
              else (fs, base_score))"

fun sentiment_adjust :: "real option \<Rightarrow> string list \<times> real \<Rightarrow> string list \<times> real" where
  "sentiment_adjust None st = st"
| "sentiment_adjust (Some sentiment) (fs, base_score) =
     (if sentiment < - 0.6 then (fs @ [''Very negative sentiment''], base_score + 10)
      else if sentiment < - 0.3 then (fs @ [''Negative sentiment''], base_score + 5)
      else (fs, base_score))"

text \<open>\<open>list(dict.fromkeys(factors))\<close>: the first occurrence of each entry, in order.\<close>

fun fromkeys :: "'a list \<Rightarrow> 'a list \<Rightarrow> 'a list" where
  "fromkeys seen [] = seen"
| "fromkeys seen (x # xs) = (if x \<in> set seen then fromkeys seen xs else fromkeys (seen @ [x]) xs)"

text \<open>
  \<open>round(x, 1)\<close>. The final score is an integer between 0 and 100, where rounding to one
  decimal changes nothing and no tie occurs.
\<close>

definition round1 :: "real \<Rightarrow> real" where
  "round1 x = real_of_int (round (x * 10)) / 10"

definition detect_risk :: "string \<Rightarrow> string option \<Rightarrow> real option \<Rightarrow> risk_assessment" where
  "detect_risk text emotion sentiment =
     (if text = [] then \<lparr>level = ''LOW'', score = 0, factors = []\<rparr>
      else
        let text_lower = lower text;
            st1 = high_risk_scan HIGH_RISK_KEYWORDS text_lower ([], 0);
            st2 = medium_risk_scan MEDIUM_RISK_PATTERNS text_lower st1;
            st3 = low_risk_scan LOW_RISK_PATTERNS text_lower st2;
            st4 = emotion_adjust emotion st3;
            st5 = sentiment_adjust sentiment st4;
            final_score = max 0 (min 100 (snd st5));
            lvl = (if final_score \<ge> 70 then ''HIGH''
                   else if final_score \<ge> 35 then ''MEDIUM''
                   else ''LOW'')
        in \<lparr>level = lvl, score = round1 final_score, factors = fromkeys [] (fst st5)\<rparr>)"

definition crisis_indicators :: "string list" where
  "crisis_indicators =
     [''kill myself'',
      ''suicide'',
      ''want to die'',
      ''going to hurt myself'',
      ''end my life'',
      ''overdose'']"

definition check_for_crisis :: "string \<Rightarrow> bool" where
  "check_for_crisis text = (let text_lower = lower text
                            in list_ex (\<lambda>indicator. sublist indicator text_lower) crisis_indicators)"

section \<open>The emotion classifier (ai-service, emotion-classifier.py)\<close>

text \<open>
  A lazily loaded model is either the string "fallback" or a pipeline; the pipeline is a
  function of the text whose value \<open>None\<close> stands for any exception raised inside the
  \<open>try\<close> block, and whose list holds the ranked pairs of label and score.
\<close>

datatype 'r handle = Fallback | Backend "string \<Rightarrow> 'r option"

record emotion_result =
  emotion :: string
  confidence :: real

definition emotion_keywords :: "(string \<times> string list) list" where
  "emotion_keywords =
     [(''joy'', [''happy'', ''glad'', ''excited'', ''wonderful'', ''great'', ''love'', ''amazing'',
                 ''fantastic'', ''good'']),
      (''sadness'', [''sad'', ''unhappy'', ''depressed'', ''down'', ''miserable'', ''lonely'',
                     ''hopeless'', ''crying'', ''tears'']),
      (''anger'', [''angry'', ''mad'', ''furious'', ''annoyed'', ''frustrated'', ''hate'', ''pissed'']),
      (''fear'', [''scared'', ''afraid'', ''terrified'', ''anxious'', ''worried'', ''nervous'',
                  ''panic'']),
      (''surprise'', [''surprised'', ''shocked'', ''amazed'', ''unexpected'', ''wow'']),
      (''disgust'', [''disgusted'', ''gross'', ''sick'', ''revolting''])]"

fun fallback_loop :: "(string \<times> string list) list \<Rightarrow> string \<Rightarrow> emotion_result" where
  "fallback_loop [] text_lower = \<lparr>emotion = ''neutral'', confidence = 0.5\<rparr>"
| "fallback_loop ((emo, keywords) # rest) text_lower =
     (if list_ex (\<lambda>keyword. sublist keyword text_lower) keywords
      then \<lparr>emotion = emo, confidence = 0.6\<rparr>
      else fallback_loop rest text_lower)"

definition fallback_classify :: "string \<Rightarrow> emotion_result" where
  "fallback_classify text = fallback_loop emotion_keywords (lower text)"

text \<open>\<open>round(x, 4)\<close>, up to the rounding of the float itself.\<close>

definition round4 :: "real \<Rightarrow> real" where
  "round4 x = real_of_int (round (x * 10000)) / 10000"

definition classify_emotion :: "(string \<times> real) list handle \<Rightarrow> string \<Rightarrow> emotion_result" where
  "classify_emotion classifier text =
     (if text = [] \<or> strip text = [] then \<lparr>emotion = ''neutral'', confidence = 0\<rparr>
      else case classifier of
             Fallback \<Rightarrow> fallback_classify text
           | Backend run \<Rightarrow>
               (case run (take 512 text) of
                  Some ((label, sc) # _) \<Rightarrow> \<lparr>emotion = lower label, confidence = round4 sc\<rparr>
                | _ \<Rightarrow> fallback_classify text))"

section \<open>The sentiment analyzer (ai-service, sentiment-analyzer.py)\<close>

record sentiment_result =
  sentiment_score :: real
  polarity :: string

definition positive_words :: "string list" where
  "positive_words =
     [''good'', ''great'', ''happy'', ''love'', ''wonderful'', ''amazing'',
      ''fantastic'', ''excellent'', ''best'', ''beautiful'', ''joy'', ''hope'',
      ''better'', ''improve'', ''grateful'', ''thanks'', ''helpful'']"

definition negative_words :: "string list" where
  "negative_words =
     [''bad'', ''terrible'', ''sad'', ''hate'', ''awful'', ''horrible'',
      ''worst'', ''pain'', ''hurt'', ''lonely'', ''hopeless'', ''scared'',
      ''angry'', ''frustrated'', ''tired'', ''exhausted'', ''stressed'',
      ''anxious'', ''worried'', ''depressed'', ''miserable'']"

definition fallback_analyze :: "string \<Rightarrow> sentiment_result" where
  "fallback_analyze text =
     (let text_lower = lower text;
          positive_count = length (filter (\<lambda>word. sublist word text_lower) positive_words);
          negative_count = length (filter (\<lambda>word. sublist word text_lower) negative_words);
          total = positive_count + negative_count
      in if total = 0 then \<lparr>sentiment_score = 0, polarity = ''neutral''\<rparr>
         else
           let sc = (real positive_count - real negative_count) / real (max total 1);
               pol = (if sc > 0.2 then ''positive''
                      else if sc < - 0.2 then ''negative''
                      else ''neutral'')
           in \<lparr>sentiment_score = round4 sc, polarity = pol\<rparr>)"

text \<open>
  \<open>str.upper\<close> on the code points below 256 whose upper case is one code point below
  256; the three others (181, 223, 255) never map into "POSITIVE".
\<close>

definition is_lower :: "char \<Rightarrow> bool" where
  "is_lower c =
     (let n = (of_char c :: nat)
      in (97 \<le> n \<and> n \<le> 122) \<or> (224 \<le> n \<and> n \<le> 254 \<and> n \<noteq> 247))"

definition upper :: "string \<Rightarrow> string" where
  "upper s = map (\<lambda>c. if is_lower c then char_of ((of_char c :: nat) - 32) else c) s"

definition analyze_sentiment :: "(string \<times> real) list handle \<Rightarrow> string \<Rightarrow> sentiment_result" where
  "analyze_sentiment analyzer text =
     (if text = [] \<or> strip text = [] then \<lparr>sentiment_score = 0, polarity = ''neutral''\<rparr>
      else case analyzer of
             Fallback \<Rightarrow> fallback_analyze text
           | Backend run \<Rightarrow>
               (case run (take 512 text) of
                  Some ((label, sc) # _) \<Rightarrow>
                    (let s = (if upper label = ''POSITIVE'' then sc else - sc);
                         pol = (if upper label = ''POSITIVE'' then ''positive'' else ''negative'');
                         pol' = (if \<bar>s\<bar> < 0.3 then ''neutral'' else pol)
                     in \<lparr>sentiment_score = round4 s, polarity = pol'\<rparr>)
                | _ \<Rightarrow> fallback_analyze text))"

section \<open>The companion (ai-service, llm-companion.py)\<close>

text \<open>
  The client is the string "mock" or a chat-completion service: a function of the message
  list (pairs of role and content) whose value \<open>None\<close> stands for any exception raised
  inside the \<open>try\<close> block, and \<open>Some c\<close> for the content \<open>c\<close> of the first choice.
\<close>

datatype client = Mock | Client "(string \<times> string) list \<Rightarrow> string option"

definition COMPANION_SYSTEM_PROMPT :: string where
  "COMPANION_SYSTEM_PROMPT =
      ''You are a supportive AI companion for teenagers. Your role is to provide emotional support through empathetic conversation.'' @ [CHR 0x0A] @
      [CHR 0x0A] @
      ''CORE PRINCIPLES:'' @ [CHR 0x0A] @
      ''1. NEVER provide medical diagnoses or clinical advice'' @ [CHR 0x0A] @
      ''2. ALWAYS use non-judgmental, validating language'' @ [CHR 0x0A] @
      ''3. Practice reflective listening - mirror back what you hear'' @ [CHR 0x0A] @
      ''4. Ask open-ended questions to encourage sharing'' @ [CHR 0x0A] @
      ''5. Validate emotions before suggesting solutions'' @ [CHR 0x0A] @
      ''6. Be warm, genuine, and age-appropriate'' @ [CHR 0x0A] @
      [CHR 0x0A] @
      ''RESPONSE STYLE:'' @ [CHR 0x0A] @
      ''- Keep responses concise (2-4 sentences typically)'' @ [CHR 0x0A] @
      ''- Use a conversational, friendly tone'' @ [CHR 0x0A] @
      ''- Avoid being preachy or lecturing'' @ [CHR 0x0A] @
      ''- Show you're genuinely listening'' @ [CHR 0x0A] @
      [CHR 0x0A] @
      ''EXAMPLE PHRASES:'' @ [CHR 0x0A] @
      ''- '' @ [CHR 0x22] @ ''That sounds really difficult.'' @ [CHR 0x22] @ [CHR 0x0A] @
      ''- '' @ [CHR 0x22] @ ''I can understand why you'd feel that way.'' @ [CHR 0x22] @ [CHR 0x0A] @
      ''- '' @ [CHR 0x22] @ ''Would you like to tell me more about that?'' @ [CHR 0x22] @ [CHR 0x0A] @
      ''- '' @ [CHR 0x22] @ ''It's okay to feel this way.'' @ [CHR 0x22] @ [CHR 0x0A] @
      ''- '' @ [CHR 0x22] @ ''I'm here to listen.'' @ [CHR 0x22] @ [CHR 0x0A] @
      [CHR 0x0A] @
      ''IMPORTANT: You are NOT a therapist. If someone shares serious concerns, acknowledge them supportively but never minimize, and gently encourage talking to a trusted adult or professional.''"

definition HIGH_RISK_ADDENDUM :: string where
  "HIGH_RISK_ADDENDUM =
      [CHR 0x0A] @
      ''CRITICAL: The user may be in distress. Respond with extra care:'' @ [CHR 0x0A] @
      ''- Stay calm and present'' @ [CHR 0x0A] @
      ''- Don't panic or overreact in your response'' @ [CHR 0x0A] @
      ''- Acknowledge their pain without judgment'' @ [CHR 0x0A] @
      ''- Gently encourage reaching out to someone they trust'' @ [CHR 0x0A] @
      ''- Remind them that support is available'' @ [CHR 0x0A] @
      ''- Do NOT leave them feeling alone or dismissed'' @ [CHR 0x0A] @
      [CHR 0x0A] @
      ''If appropriate, you may mention that talking to a school counselor, trusted adult, or calling a helpline like 988 (Suicide & Crisis Lifeline) can help.''"

definition generate_mock_response :: "string \<Rightarrow> string option \<Rightarrow> string option \<Rightarrow> string" where
  "generate_mock_response message emo risk =
     (let message_lower = lower message
      in if risk = Some ''HIGH'' then
           ''I hear that you're going through something really painful right now. '' @
           ''I want you to know that you're not alone, and what you're feeling matters. '' @
           ''Would it be possible to talk to someone you trust about this? '' @
           ''I'm here to listen, and I care about you.''
         else if list_ex (\<lambda>word. sublist word message_lower) [''hi'', ''hello'', ''hey''] then
           ''Hey! It's good to hear from you. '' @
           ''How are you feeling today? I'm here if you want to talk about anything.''
         else if emo = Some ''sadness'' then
           ''It sounds like you're going through a tough time. '' @
           ''I'm really sorry you're feeling this way. '' @
           ''Would you like to tell me more about what's been going on?''
         else if emo = Some ''fear'' \<or> emo = Some ''anxiety'' then
           ''That sounds really stressful. It's completely understandable to feel worried. '' @
           ''What's been weighing on your mind the most?''
         else if emo = Some ''anger'' then
           ''I can hear that you're frustrated. Those feelings are valid. '' @
           ''What happened that's got you feeling this way?''
         else if emo = Some ''joy'' then
           ''That's wonderful to hear! It sounds like something good is happening. '' @
           ''I'd love to hear more about it!''
         else if risk = Some ''MEDIUM'' then
           ''It sounds like things have been really hard lately. '' @
           ''I want you to know that your feelings are valid, and it's okay to not be okay sometimes. '' @
           ''What would feel helpful to talk about right now?''
         else
           ''I hear you. That sounds like something worth exploring. '' @
           ''Would you like to tell me more about how you're feeling?'')"

text \<open>\<open>msg.get(key, default)\<close> on a history entry, a dictionary of strings.\<close>

definition dict_get :: "(string \<rightharpoonup> string) \<Rightarrow> string \<Rightarrow> string \<Rightarrow> string" where
  "dict_get d k dflt = (case d k of None \<Rightarrow> dflt | Some v \<Rightarrow> v)"

text \<open>The slice \<open>xs[-6:]\<close>.\<close>

definition last6 :: "'a list \<Rightarrow> 'a list" where
  "last6 xs = drop (length xs - 6) xs"

definition build_messages ::
  "string \<Rightarrow> string option \<Rightarrow> string option \<Rightarrow> (string \<rightharpoonup> string) list option
     \<Rightarrow> (string \<times> string) list" where
  "build_messages message emo risk conversation_history =
     (let system_prompt = (if risk = Some ''HIGH''
                           then COMPANION_SYSTEM_PROMPT @ [CHR 0x0A, CHR 0x0A] @ HIGH_RISK_ADDENDUM
                           else COMPANION_SYSTEM_PROMPT);
          history = (case conversation_history of
                       None \<Rightarrow> []
                     | Some h \<Rightarrow>
                         map (\<lambda>msg. (dict_get msg ''role'' ''user'', dict_get msg ''message'' []))
                             (last6 h));
          context_note = (case emo of
                            None \<Rightarrow> []
                          | Some e \<Rightarrow>
                              if e \<noteq> [] \<and> e \<noteq> ''neutral''
                              then ''[User appears to be feeling '' @ e @ ''] ''
                              else [])
      in [(''system'', system_prompt)] @ history @ [(''user'', context_note @ message)])"

definition generate_response ::
  "client \<Rightarrow> string \<Rightarrow> string option \<Rightarrow> string option \<Rightarrow> (string \<rightharpoonup> string) list option
     \<Rightarrow> string" where
  "generate_response cl message emo risk conversation_history =
     (case cl of
        Mock \<Rightarrow> generate_mock_response message emo risk
      | Client create \<Rightarrow>
          (case create (build_messages message emo risk conversation_history) of
             Some content \<Rightarrow> strip content
           | None \<Rightarrow> generate_mock_response message emo risk))"

section \<open>The chat pipeline (backend, api/chat.py)\<close>

text \<open>
  The three collections are lists, newest entry last.  Each \<open>await insert_one\<close> of the
  handler is unguarded: it either returns, with the document appended, or raises, and then
  the handler stops there with the error, keeping what was written before.  A call that
  raises may or may not have stored its document.  The outcome of each of the four writes
  is an argument.  Timestamps are natural numbers handed in by the caller (\<open>utcnow\<close> is
  read twice).  When the import of the AI services fails, the module's own fallback
  functions are used instead.
\<close>

datatype api_error = ValidationError | WriteFailed

datatype write_outcome = Acknowledged | Rejected | StoredThenRaised

record write_outcomes =
  user_log_write :: write_outcome
  ai_log_write :: write_outcome
  risk_score_write :: write_outcome
  alert_write :: write_outcome

text \<open>The collection after the call, and whether the call raised.\<close>

fun insert_one :: "write_outcome \<Rightarrow> 'a list \<Rightarrow> 'a \<Rightarrow> 'a list \<times> bool" where
  "insert_one Acknowledged coll doc = (coll @ [doc], False)"
| "insert_one Rejected coll doc = (coll, True)"
| "insert_one StoredThenRaised coll doc = (coll @ [doc], True)"

record chat_log =
  log_user_id :: string
  log_message :: string
  log_role :: string
  log_timestamp :: nat
  log_emotion :: "string option"
  log_emotion_confidence :: "real option"
  log_sentiment_score :: "real option"
  log_sentiment_polarity :: "string option"

record risk_entry =
  entry_user_id :: string
  entry_level :: string
  entry_score :: real
  entry_timestamp :: nat
  entry_factors :: "string list"
  entry_trigger_message :: "string option"

record alert =
  alert_user_id :: string
  risk_level :: string
  trigger_message :: string
  created_at :: nat
  resolved :: bool
  resolved_at :: "nat option"
  alert_notes :: "string option"

record database =
  chat_logs :: "chat_log list"
  risk_scores :: "risk_entry list"
  alerts :: "alert list"

record services =
  AI_AVAILABLE :: bool
  emotion_classifier :: "(string \<times> real) list handle"
  sentiment_analyzer :: "(string \<times> real) list handle"
  llm_client :: client

record chat_response =
  resp_user_id :: string
  resp_user_message :: string
  resp_ai_response :: string
  resp_emotion :: string
  resp_emotion_confidence :: real
  resp_sentiment_score :: real
  resp_sentiment_polarity :: string
  resp_risk_level :: string
  resp_risk_score :: real
  resp_timestamp :: nat

text \<open>Steps 1 to 3 of \<open>send_message\<close>: emotion, sentiment, risk.\<close>

definition pipeline_emotion :: "services \<Rightarrow> string \<Rightarrow> emotion_result" where
  "pipeline_emotion sv message =
     (if AI_AVAILABLE sv then classify_emotion (emotion_classifier sv) message
      else \<lparr>emotion = ''neutral'', confidence = 0.5\<rparr>)"

definition pipeline_sentiment :: "services \<Rightarrow> string \<Rightarrow> sentiment_result" where
  "pipeline_sentiment sv message =
     (if AI_AVAILABLE sv then analyze_sentiment (sentiment_analyzer sv) message
      else \<lparr>sentiment_score = 0, polarity = ''neutral''\<rparr>)"

definition pipeline_risk :: "services \<Rightarrow> string \<Rightarrow> risk_assessment" where
  "pipeline_risk sv message =
     (if AI_AVAILABLE sv
      then detect_risk message (Some (emotion (pipeline_emotion sv message)))
             (Some (sentiment_score (pipeline_sentiment sv message)))
      else \<lparr>level = ''LOW'', score = 10, factors = []\<rparr>)"

definition pipeline_reply :: "services \<Rightarrow> string \<Rightarrow> string \<Rightarrow> string \<Rightarrow> string" where
  "pipeline_reply sv message emo lvl =
     (if AI_AVAILABLE sv
      then generate_response (llm_client sv) message (Some emo) (Some lvl) None
      else ''I hear you. That sounds like something worth exploring. '' @
           ''Would you like to tell me more about how you're feeling?'')"

definition send_message ::
  "services \<Rightarrow> write_outcomes \<Rightarrow> nat \<Rightarrow> nat \<Rightarrow> database \<Rightarrow> string \<Rightarrow> string
     \<Rightarrow> database \<times> (api_error + chat_response)" where
  "send_message sv ws timestamp timestamp2 db user_id message =
     (let emotion_result = pipeline_emotion sv message;
          sentiment_res = pipeline_sentiment sv message;
          risk_result = pipeline_risk sv message;
          lvl = level risk_result;
          ai_response = pipeline_reply sv message (emotion emotion_result) lvl;
          user_log = \<lparr>log_user_id = user_id, log_message = message, log_role = ''user'',
                      log_timestamp = timestamp,
                      log_emotion = Some (emotion emotion_result),
                      log_emotion_confidence = Some (confidence emotion_result),
                      log_sentiment_score = Some (sentiment_score sentiment_res),
                      log_sentiment_polarity = Some (polarity sentiment_res)\<rparr>;
          ai_log = \<lparr>log_user_id = user_id, log_message = ai_response, log_role = ''ai'',
                    log_timestamp = timestamp2,
                    log_emotion = None, log_emotion_confidence = None,
                    log_sentiment_score = None, log_sentiment_polarity = None\<rparr>;
          entry = \<lparr>entry_user_id = user_id, entry_level = lvl,
                      entry_score = score risk_result, entry_timestamp = timestamp,
                      entry_factors = factors risk_result,
                      entry_trigger_message =
                        (if lvl \<in> set [''MEDIUM'', ''HIGH''] then Some message else None)\<rparr>;
          new_alert = \<lparr>alert_user_id = user_id, risk_level = lvl, trigger_message = message,
                       created_at = timestamp, resolved = False, resolved_at = None,
                       alert_notes = None\<rparr>;
          response =
            \<lparr>resp_user_id = user_id, resp_user_message = message,
             resp_ai_response = ai_response,
             resp_emotion = emotion emotion_result,
             resp_emotion_confidence = confidence emotion_result,
             resp_sentiment_score = sentiment_score sentiment_res,
             resp_sentiment_polarity = polarity sentiment_res,
             resp_risk_level = lvl, resp_risk_score = score risk_result,
             resp_timestamp = timestamp\<rparr>;
          w1 = insert_one (user_log_write ws) (chat_logs db) user_log;
          db1 = db\<lparr>chat_logs := fst w1\<rparr>
      in if snd w1 then (db1, Inl WriteFailed)
         else
           let w2 = insert_one (ai_log_write ws) (chat_logs db1) ai_log;
               db2 = db1\<lparr>chat_logs := fst w2\<rparr>
           in if snd w2 then (db2, Inl WriteFailed)
              else
                let w3 = insert_one (risk_score_write ws) (risk_scores db2) entry;
                    db3 = db2\<lparr>risk_scores := fst w3\<rparr>
                in if snd w3 then (db3, Inl WriteFailed)
                   else if lvl = ''HIGH'' then
                     let w4 = insert_one (alert_write ws) (alerts db3) new_alert;
                         db4 = db3\<lparr>alerts := fst w4\<rparr>
                     in if snd w4 then (db4, Inl WriteFailed) else (db4, Inr response)
                   else (db3, Inr response))"

section \<open>The risk history (backend, api/risk.py)\<close>

text \<open>
  \<open>get_risk_scores\<close> reads the user's entries of the last days, newest first; that list
  is the argument here.  Building a \<open>RiskScore\<close> validates each entry (a level out of the
  three names, a score in 0..100), and a failed validation is the error.

  The scores are floats, and the averages are float arithmetic: \<open>fl\<close> rounds a real to
  the nearest double (53 bits, ties to even; no overflow arises below 1000), every
  division, addition and subtraction is the exact result rounded, and \<open>sum\<close> adds from
  the left, rounding each partial sum.  (A compensated \<open>sum\<close> returns the same value
  whenever every partial sum is a double, as on the integer scores the chat pipeline
  stores.)
\<close>

definition round_even :: "real \<Rightarrow> int" where
  "round_even z =
     (let n = \<lfloor>z\<rfloor>; f = z - of_int n
      in if f < 1 / 2 then n
         else if f > 1 / 2 then n + 1
         else if even n then n else n + 1)"

definition ulp_exp :: "real \<Rightarrow> int" where
  "ulp_exp x = max \<lfloor>log 2 \<bar>x\<bar>\<rfloor> (- 1022) - 52"

definition fl :: "real \<Rightarrow> real" where
  "fl x = (if x = 0 then 0 else of_int (round_even (x / 2 powr ulp_exp x)) * 2 powr ulp_exp x)"

definition py_sum :: "real list \<Rightarrow> real" where
  "py_sum xs = foldl (\<lambda>acc x. fl (acc + x)) 0 xs"

record risk_history =
  history_scores :: "risk_entry list"
  current_level :: string
  trend :: string

definition valid_risk_score :: "risk_entry \<Rightarrow> bool" where
  "valid_risk_score d =
     (entry_level d \<in> set [''LOW'', ''MEDIUM'', ''HIGH''] \<and> 0 \<le> entry_score d \<and> entry_score d \<le> 100)"

definition compute_trend :: "real list \<Rightarrow> string" where
  "compute_trend scores =
     (if length scores \<ge> 5 then
        let recent_avg = fl (py_sum (take 5 scores) / 5);
            older = take 5 (drop 5 scores);
            older_avg = (if length scores > 5
                         then fl (py_sum older / real (min 5 (length older)))
                         else recent_avg)
        in if recent_avg < fl (older_avg - 5) then ''improving''
           else if recent_avg > fl (older_avg + 5) then ''worsening''
           else ''stable''
      else ''insufficient_data'')"

definition get_risk_scores :: "risk_entry list \<Rightarrow> api_error + risk_history" where
  "get_risk_scores docs =
     (if list_all valid_risk_score docs
      then Inr \<lparr>history_scores = docs,
                current_level = (case docs of [] \<Rightarrow> ''LOW'' | d # _ \<Rightarrow> entry_level d),
                trend = compute_trend (map entry_score docs)\<rparr>
      else Inl ValidationError)"

text \<open>An entry as the chat pipeline stores it for a LOW assessment.\<close>

definition low_entry :: "nat \<Rightarrow> real \<Rightarrow> risk_entry" where
  "low_entry timestamp s =
     \<lparr>entry_user_id = ''u1'', entry_level = ''LOW'', entry_score = s,
      entry_timestamp = timestamp, entry_factors = [], entry_trigger_message = None\<rparr>"

section \<open>Vocabulary of the proofs\<close>

text \<open>Which tier of the scans a lowercased text reaches, and what the score then is.\<close>

definition has_high :: "string \<Rightarrow> bool" where
  "has_high t = (\<exists>k \<in> set HIGH_RISK_KEYWORDS. sublist k t)"

definition has_medium :: "string \<Rightarrow> bool" where
  "has_medium t = (\<exists>p \<in> set MEDIUM_RISK_PATTERNS. re_search p t)"

definition has_low :: "string \<Rightarrow> bool" where
  "has_low t = (\<exists>p \<in> set LOW_RISK_PATTERNS. re_search p t)"

definition tier :: "string \<Rightarrow> real" where
  "tier t = (if has_high t then 85 else if has_medium t then 55 else if has_low t then 25 else 0)"

definition emotion_delta :: "string option \<Rightarrow> real" where
  "emotion_delta emo =
     (case emo of None \<Rightarrow> 0 | Some e \<Rightarrow> if e = [] then 0 else adjustment_of e)"

definition sentiment_delta :: "real option \<Rightarrow> real" where
  "sentiment_delta sentiment =
     (case sentiment of
        None \<Rightarrow> 0
      | Some s \<Rightarrow> if s < - 0.6 then 10 else if s < - 0.3 then 5 else 0)"

definition final_of :: "string \<Rightarrow> string option \<Rightarrow> real option \<Rightarrow> real" where
  "final_of t emo sentiment =
     max 0 (min 100 (tier (lower t) + emotion_delta emo + sentiment_delta sentiment))"

definition level_of :: "real \<Rightarrow> string" where
  "level_of x = (if x \<ge> 70 then ''HIGH'' else if x \<ge> 35 then ''MEDIUM'' else ''LOW'')"

text \<open>Every word of the expression holds a character that is not white space.\<close>

fun needs_ink :: "rx \<Rightarrow> bool" where
  "needs_ink Zero = True"
| "needs_ink Eps = False"
| "needs_ink (Ch c) = (\<not> isspace c)"
| "needs_ink Ws = False"
| "needs_ink (Cat r s) = (needs_ink r \<or> needs_ink s)"
| "needs_ink (Alt r s) = (needs_ink r \<and> needs_ink s)"
| "needs_ink (Rep r) = False"

text \<open>
  The words of an expression, against which the matcher is checked: \<open>re_search r s\<close>
  holds exactly when some substring of \<open>s\<close> is a word of \<open>r\<close>.
\<close>

inductive_set star :: "string set \<Rightarrow> string set" for A :: "string set" where
  star_empty: "[] \<in> star A"
| star_step: "u \<in> A \<Longrightarrow> v \<in> star A \<Longrightarrow> u @ v \<in> star A"

fun lang :: "rx \<Rightarrow> string set" where
  "lang Zero = {}"
| "lang Eps = {[]}"
| "lang (Ch c) = {[c]}"
| "lang Ws = {[c] | c. isspace c}"
| "lang (Cat r s) = {u @ v | u v. u \<in> lang r \<and> v \<in> lang s}"
| "lang (Alt r s) = lang r \<union> lang s"
| "lang (Rep r) = star (lang r)"

section \<open>The score of the risk detector\<close>

lemma high_scan_snd:
  "snd (high_risk_scan ks t st) =
     (if \<exists>k \<in> set ks. sublist k t then max (snd st) 85 else snd st)"
proof (cases st)
  case (Pair fs b)
  have "snd (high_risk_scan ks t (fs, b)) = (if \<exists>k \<in> set ks. sublist k t then max b 85 else b)"
    by (induction ks arbitrary: fs b) auto
  with Pair show ?thesis by simp
qed

lemma medium_scan_snd:
  "snd (medium_risk_scan ps t st) =
     (if \<exists>p \<in> set ps. re_search p t then max (snd st) 55 else snd st)"
proof (cases st)
  case (Pair fs b)
  have "snd (medium_risk_scan ps t (fs, b)) =
          (if \<exists>p \<in> set ps. re_search p t then max b 55 else b)"
    by (induction ps arbitrary: fs b) auto
  with Pair show ?thesis by simp
qed

lemma low_scan_snd:
  "snd (low_risk_scan ps t st) =
     (if \<exists>p \<in> set ps. re_search p t
      then (if snd st < 40 then max (snd st) 25 else snd st) else snd st)"
proof (cases st)
  case (Pair fs b)
  have "snd (low_risk_scan ps t (fs, b)) =
     (if \<exists>p \<in> set ps. re_search p t then (if b < 40 then max b 25 else b) else b)"
    by (induction ps arbitrary: fs b) auto
  with Pair show ?thesis by simp
qed

lemma scans_snd:
  "snd (low_risk_scan LOW_RISK_PATTERNS t
         (medium_risk_scan MEDIUM_RISK_PATTERNS t
           (high_risk_scan HIGH_RISK_KEYWORDS t ([], 0)))) = tier t"
  by (simp add: low_scan_snd medium_scan_snd high_scan_snd tier_def has_high_def
      has_medium_def has_low_def)

lemma adjustment_of_cases: "adjustment_of e \<in> {15, 12, 8, 5, 0, - 10}"
  by (simp add: adjustment_of_def emotion_adjustments_def)

lemma adjustment_of_joy: "adjustment_of e < 0 \<Longrightarrow> lower e = ''joy''"
  by (simp add: adjustment_of_def emotion_adjustments_def split: if_splits)

lemma adjustment_of_nonneg: "lower e \<noteq> ''joy'' \<Longrightarrow> 0 \<le> adjustment_of e"
  using adjustment_of_joy [of e] by force

lemma emotion_delta_cases: "emotion_delta e \<in> {15, 12, 8, 5, 0, - 10}"
  using adjustment_of_cases by (simp add: emotion_delta_def split: option.split)

lemma emotion_delta_nonneg:
  "(\<forall>e. emo = Some e \<longrightarrow> lower e \<noteq> ''joy'') \<Longrightarrow> 0 \<le> emotion_delta emo"
  by (cases emo) (simp_all add: emotion_delta_def adjustment_of_nonneg)

lemma sentiment_delta_cases: "sentiment_delta s \<in> {10, 5, 0}"
  by (simp add: sentiment_delta_def split: option.split)

lemma sentiment_delta_nonneg: "0 \<le> sentiment_delta s"
  using sentiment_delta_cases [of s] by auto

lemma emotion_adjust_snd: "snd (emotion_adjust e st) = snd st + emotion_delta e"
  by (cases st; cases e) (simp_all add: emotion_delta_def Let_def)

lemma sentiment_adjust_snd: "snd (sentiment_adjust s st) = snd st + sentiment_delta s"
  by (cases st; cases s) (simp_all add: sentiment_delta_def)

lemma round1_of_int: "round1 (of_int n) = of_int n"
proof -
  have "(of_int n :: real) * 10 = of_int (n * 10)" by simp
  then have "round ((of_int n :: real) * 10) = n * 10" by (simp only: round_of_int)
  then show ?thesis by (simp add: round1_def)
qed

lemma tier_Ints: "tier t \<in> \<int>"
  by (simp add: tier_def)

lemma final_of_Ints: "final_of t e s \<in> \<int>"
proof -
  have "emotion_delta e \<in> \<int>" using emotion_delta_cases [of e] by auto
  moreover have "sentiment_delta s \<in> \<int>" using sentiment_delta_cases [of s] by auto
  ultimately have "tier (lower t) + emotion_delta e + sentiment_delta s \<in> \<int>"
    using tier_Ints by (intro Ints_add)
  then show ?thesis
    by (simp add: final_of_def max_def min_def)
qed

lemma round1_final_of: "round1 (final_of t e s) = final_of t e s"
  using final_of_Ints [of t e s] by (auto elim!: Ints_cases simp: round1_of_int)

lemma final_of_range: "0 \<le> final_of t e s" "final_of t e s \<le> 100"
  by (simp_all add: final_of_def)

lemma detect_risk_level:
  "t \<noteq> [] \<Longrightarrow> level (detect_risk t e s) = level_of (final_of t e s)"
  unfolding detect_risk_def Let_def final_of_def level_of_def
  by (auto simp add: scans_snd emotion_adjust_snd sentiment_adjust_snd)

lemma detect_risk_score:
  "t \<noteq> [] \<Longrightarrow> score (detect_risk t e s) = final_of t e s"
proof -
  assume "t \<noteq> []"
  then have "score (detect_risk t e s) = round1 (final_of t e s)"
    unfolding detect_risk_def Let_def final_of_def
    by (simp add: scans_snd emotion_adjust_snd sentiment_adjust_snd)
  then show ?thesis by (simp only: round1_final_of)
qed

lemma final_of_high:
  assumes "has_high (lower t)"
  shows "75 \<le> final_of t e s"
  using assms emotion_delta_cases [of e] sentiment_delta_cases [of s]
  by (auto simp: final_of_def tier_def)

lemma final_of_high_no_joy:
  assumes "has_high (lower t)" "0 \<le> emotion_delta e"
  shows "85 \<le> final_of t e s"
  using assms sentiment_delta_nonneg [of s]
  by (simp add: final_of_def tier_def)

lemma final_of_below_medium:
  assumes "\<not> has_high (lower t)" "\<not> has_medium (lower t)"
  shows "final_of t e s \<le> 50"
  using assms emotion_delta_cases [of e] sentiment_delta_cases [of s]
  by (auto simp: final_of_def tier_def)

lemma has_high_nonempty: "has_high (lower t) \<Longrightarrow> t \<noteq> []"
  by (auto simp: has_high_def HIGH_RISK_KEYWORDS_def lower_def)

section \<open>The matcher decides the language of an expression\<close>

lemma nullable_iff: "nullable r \<longleftrightarrow> [] \<in> lang r"
  by (induction r) (auto intro: star_empty)

lemma star_cons_split:
  assumes "x \<in> star A" and "x = c # w"
  shows "\<exists>u v. w = u @ v \<and> c # u \<in> A \<and> v \<in> star A"
  using assms
proof (induction arbitrary: w rule: star.induct)
  case star_empty
  then show ?case by simp
next
  case (star_step u v)
  show ?case
  proof (cases u)
    case Nil
    with star_step show ?thesis by simp
  next
    case (Cons a u')
    with star_step.prems have "a = c" "w = u' @ v" by simp_all
    with Cons star_step.hyps show ?thesis by blast
  qed
qed

lemma star_cons_iff:
  "c # w \<in> star A \<longleftrightarrow> (\<exists>u v. w = u @ v \<and> c # u \<in> A \<and> v \<in> star A)"
proof
  assume "c # w \<in> star A"
  then show "\<exists>u v. w = u @ v \<and> c # u \<in> A \<and> v \<in> star A"
    by (rule star_cons_split) simp
next
  assume "\<exists>u v. w = u @ v \<and> c # u \<in> A \<and> v \<in> star A"
  then obtain u v where "w = u @ v" "c # u \<in> A" "v \<in> star A" by blast
  then show "c # w \<in> star A" using star_step [of "c # u" A v] by simp
qed

lemma lang_CatI: "u \<in> lang r \<Longrightarrow> v \<in> lang s \<Longrightarrow> u @ v \<in> lang (Cat r s)"
  by auto

lemma lang_deriv: "w \<in> lang (deriv c r) \<longleftrightarrow> c # w \<in> lang r"
proof (induction r arbitrary: w)
  case (Cat r s)
  show ?case
  proof
    assume "w \<in> lang (deriv c (Cat r s))"
    then consider u v where "w = u @ v" "u \<in> lang (deriv c r)" "v \<in> lang s"
      | "nullable r" "w \<in> lang (deriv c s)"
      by (auto split: if_splits)
    then show "c # w \<in> lang (Cat r s)"
    proof cases
      case 1
      then have "c # u \<in> lang r" using Cat.IH(1) by simp
      then have "(c # u) @ v \<in> lang (Cat r s)" using 1(3) by (rule lang_CatI)
      with 1 show ?thesis by simp
    next
      case 2
      then have "[] \<in> lang r" "c # w \<in> lang s" using Cat.IH(2) by (simp_all add: nullable_iff)
      then have "[] @ (c # w) \<in> lang (Cat r s)" by (rule lang_CatI)
      then show ?thesis by simp
    qed
  next
    assume "c # w \<in> lang (Cat r s)"
    then obtain u v where uv: "c # w = u @ v" "u \<in> lang r" "v \<in> lang s" by auto
    show "w \<in> lang (deriv c (Cat r s))"
    proof (cases u)
      case Nil
      with uv have "nullable r" "w \<in> lang (deriv c s)"
        using Cat.IH(2) by (simp_all add: nullable_iff)
      then show ?thesis by simp
    next
      case (Cons a u')
      with uv have "w = u' @ v" "u' \<in> lang (deriv c r)" using Cat.IH(1) by simp_all
      with uv(3) show ?thesis by auto
    qed
  qed
next
  case (Rep r)
  then show ?case by (auto simp: star_cons_iff)
qed auto

lemma match_here_iff: "match_here r s \<longleftrightarrow> (\<exists>u v. s = u @ v \<and> u \<in> lang r)"
proof (induction s arbitrary: r)
  case Nil
  then show ?case by (simp add: nullable_iff)
next
  case (Cons c cs)
  have "(\<exists>u v. c # cs = u @ v \<and> u \<in> lang r)
        \<longleftrightarrow> [] \<in> lang r \<or> (\<exists>u v. cs = u @ v \<and> c # u \<in> lang r)"
    by (auto simp: Cons_eq_append_conv)
  then show ?case using Cons.IH [of "deriv c r"] by (simp add: nullable_iff lang_deriv)
qed

lemma re_search_iff: "re_search r s \<longleftrightarrow> (\<exists>u v w. s = u @ v @ w \<and> v \<in> lang r)"
proof (induction s)
  case Nil
  then show ?case by (simp add: nullable_iff)
next
  case (Cons c cs)
  have "(\<exists>u v w. c # cs = u @ v @ w \<and> v \<in> lang r)
        \<longleftrightarrow> (\<exists>v w. c # cs = v @ w \<and> v \<in> lang r) \<or> (\<exists>u v w. cs = u @ v @ w \<and> v \<in> lang r)"
    (is "?L \<longleftrightarrow> ?A \<or> ?B")
  proof
    assume ?L
    then obtain u v w where h: "c # cs = u @ v @ w" "v \<in> lang r" by blast
    show "?A \<or> ?B"
    proof (cases u)
      case Nil
      with h show ?thesis by auto
    next
      case (Cons a u')
      with h have "cs = u' @ v @ w" by simp
      with h(2) show ?thesis by blast
    qed
  next
    assume "?A \<or> ?B"
    then show ?L
    proof
      assume ?A
      then obtain v w where "c # cs = [] @ v @ w" "v \<in> lang r" by auto
      then show ?L by blast
    next
      assume ?B
      then obtain u v w where "cs = u @ v @ w" "v \<in> lang r" by blast
      then have "c # cs = (c # u) @ v @ w" by simp
      with \<open>v \<in> lang r\<close> show ?L by blast
    qed
  qed
  then show ?case using Cons.IH match_here_iff [of r "c # cs"] by simp
qed

section \<open>Crisis indicators and factors\<close>

lemma has_high_level:
  assumes "has_high (lower t)"
  shows "level (detect_risk t e s) = ''HIGH''"
proof -
  have "t \<noteq> []" using assms by (rule has_high_nonempty)
  moreover have "75 \<le> final_of t e s" using assms by (rule final_of_high)
  ultimately show ?thesis by (simp add: detect_risk_level level_of_def)
qed

lemma crisis_indicator_covered:
  "c \<in> set crisis_indicators \<Longrightarrow>
     \<exists>k \<in> set HIGH_RISK_KEYWORDS. sublist k c \<and> (c \<noteq> ''going to hurt myself'' \<longrightarrow> k = c)"
proof -
  have "sublist ''hurt myself'' (''going to '' @ ''hurt myself'')"
    by (rule sublist_append_leftI)
  then have hm: "sublist ''hurt myself'' ''going to hurt myself''" by simp
  assume "c \<in> set crisis_indicators"
  moreover have "list_all (\<lambda>c. c = ''going to hurt myself'' \<or> c \<in> set HIGH_RISK_KEYWORDS)
                   crisis_indicators"
    by code_simp
  ultimately consider "c = ''going to hurt myself''"
    | "c \<noteq> ''going to hurt myself''" "c \<in> set HIGH_RISK_KEYWORDS"
    by (auto simp: list_all_iff)
  then show ?thesis
  proof cases
    case 1
    moreover have "''hurt myself'' \<in> set HIGH_RISK_KEYWORDS" by (simp add: HIGH_RISK_KEYWORDS_def)
    ultimately show ?thesis using hm by blast
  next
    case 2
    then show ?thesis by auto
  qed
qed

lemma crisis_has_high:
  assumes "check_for_crisis t"
  shows "has_high (lower t)"
proof -
  from assms obtain c where c: "c \<in> set crisis_indicators" "sublist c (lower t)"
    by (auto simp: check_for_crisis_def Let_def list_ex_iff)
  from crisis_indicator_covered [OF c(1)] obtain k
    where k: "k \<in> set HIGH_RISK_KEYWORDS" "sublist k c" by blast
  from k(2) c(2) have "sublist k (lower t)" by (rule sublist_order.order_trans)
  with k(1) show ?thesis by (auto simp: has_high_def)
qed

lemma high_scan_fst:
  "fst (high_risk_scan ks t st) \<noteq> [] \<longleftrightarrow> fst st \<noteq> [] \<or> (\<exists>k \<in> set ks. sublist k t)"
proof (cases st)
  case (Pair fs b)
  have "fst (high_risk_scan ks t (fs, b)) \<noteq> [] \<longleftrightarrow> fs \<noteq> [] \<or> (\<exists>k \<in> set ks. sublist k t)"
    by (induction ks arbitrary: fs b) auto
  with Pair show ?thesis by simp
qed

lemma medium_scan_fst:
  "fst (medium_risk_scan ps t st) \<noteq> [] \<longleftrightarrow> fst st \<noteq> [] \<or> (\<exists>p \<in> set ps. re_search p t)"
proof (cases st)
  case (Pair fs b)
  have "fst (medium_risk_scan ps t (fs, b)) \<noteq> [] \<longleftrightarrow> fs \<noteq> [] \<or> (\<exists>p \<in> set ps. re_search p t)"
    by (induction ps arbitrary: fs b) auto
  with Pair show ?thesis by simp
qed

lemma low_scan_fst:
  "fst (low_risk_scan ps t st) \<noteq> [] \<longleftrightarrow> fst st \<noteq> [] \<or> (\<exists>p \<in> set ps. re_search p t)"
proof (cases st)
  case (Pair fs b)
  have "fst (low_risk_scan ps t (fs, b)) \<noteq> [] \<longleftrightarrow> fs \<noteq> [] \<or> (\<exists>p \<in> set ps. re_search p t)"
    by (induction ps arbitrary: fs b) auto
  with Pair show ?thesis by simp
qed

lemma emotion_adjust_fst: "fst st \<noteq> [] \<Longrightarrow> fst (emotion_adjust e st) \<noteq> []"
  by (cases st; cases e) (simp_all add: Let_def)

lemma sentiment_adjust_fst: "fst st \<noteq> [] \<Longrightarrow> fst (sentiment_adjust s st) \<noteq> []"
  by (cases st; cases s) simp_all

lemma set_fromkeys: "set (fromkeys seen xs) = set seen \<union> set xs"
  by (induction xs arbitrary: seen) auto

lemma fromkeys_nonempty: "xs \<noteq> [] \<Longrightarrow> fromkeys [] xs \<noteq> []"
  using set_fromkeys [of "[]" xs] by (metis set_empty sup_bot.left_neutral)

lemma tier_positive_iff: "0 < tier t \<longleftrightarrow> has_high t \<or> has_medium t \<or> has_low t"
  by (simp add: tier_def)

lemma factors_nonempty:
  assumes "t \<noteq> []" and "has_high (lower t) \<or> has_medium (lower t) \<or> has_low (lower t)"
  shows "factors (detect_risk t e s) \<noteq> []"
proof -
  let ?st3 = "low_risk_scan LOW_RISK_PATTERNS (lower t)
         (medium_risk_scan MEDIUM_RISK_PATTERNS (lower t)
           (high_risk_scan HIGH_RISK_KEYWORDS (lower t) ([], 0)))"
  have "fst ?st3 \<noteq> []"
    using assms(2) by (auto simp: low_scan_fst medium_scan_fst high_scan_fst has_high_def
        has_medium_def has_low_def)
  then have "fst (sentiment_adjust s (emotion_adjust e ?st3)) \<noteq> []"
    by (intro sentiment_adjust_fst emotion_adjust_fst)
  then have "fromkeys [] (fst (sentiment_adjust s (emotion_adjust e ?st3))) \<noteq> []"
    by (rule fromkeys_nonempty)
  then show ?thesis using assms(1) by (simp add: detect_risk_def Let_def)
qed

lemma final_of_medium_tier:
  assumes "35 \<le> final_of t e s"
  shows "0 < tier (lower t)"
proof (rule ccontr)
  assume "\<not> 0 < tier (lower t)"
  then have "tier (lower t) = 0" by (simp add: tier_def split: if_splits)
  then show False
    using assms emotion_delta_cases [of e] sentiment_delta_cases [of s]
    by (auto simp: final_of_def)
qed

section \<open>Blank texts\<close>

lemma nullable_no_ink: "nullable r \<Longrightarrow> \<not> needs_ink r"
  by (induction r) auto

lemma needs_ink_deriv: "needs_ink r \<Longrightarrow> isspace c \<Longrightarrow> needs_ink (deriv c r)"
  by (induction r) (auto dest: nullable_no_ink)

lemma match_here_blank:
  "needs_ink r \<Longrightarrow> \<forall>c \<in> set s. isspace c \<Longrightarrow> \<not> match_here r s"
proof (induction s arbitrary: r)
  case Nil
  then show ?case by (auto dest: nullable_no_ink)
next
  case (Cons c cs)
  from Cons.prems have "needs_ink (deriv c r)" by (simp add: needs_ink_deriv)
  with Cons show ?case by (auto dest: nullable_no_ink)
qed

lemma re_search_blank:
  "needs_ink r \<Longrightarrow> \<forall>c \<in> set s. isspace c \<Longrightarrow> \<not> re_search r s"
proof (induction s)
  case Nil
  then show ?case by (auto dest: nullable_no_ink)
next
  case (Cons c cs)
  then show ?case using match_here_blank [of r "c # cs"] by auto
qed

lemma strip_Nil_iff: "strip s = [] \<longleftrightarrow> (\<forall>c \<in> set s. isspace c)"
proof
  assume "strip s = []"
  then have all: "\<forall>c \<in> set (dropWhile isspace s). isspace c"
    by (simp add: strip_def)
  have "dropWhile isspace s = []"
  proof (rule ccontr)
    assume ne: "dropWhile isspace s \<noteq> []"
    then have "\<not> isspace (hd (dropWhile isspace s))" by (rule hd_dropWhile)
    moreover have "hd (dropWhile isspace s) \<in> set (dropWhile isspace s)" using ne by simp
    ultimately show False using all by blast
  qed
  then show "\<forall>c \<in> set s. isspace c" by simp
next
  assume "\<forall>c \<in> set s. isspace c"
  then have d: "dropWhile isspace s = []" by simp
  show "strip s = []" unfolding strip_def d by simp
qed

lemma isspace_not_upper: "isspace c \<Longrightarrow> \<not> is_upper c"
  by (auto simp: isspace_def is_upper_def Let_def)

lemma lower_blank: "\<forall>c \<in> set s. isspace c \<Longrightarrow> lower s = s"
  by (induction s) (auto simp: lower_def lower_char_def isspace_not_upper)

lemma keywords_have_ink:
  "k \<in> set HIGH_RISK_KEYWORDS \<Longrightarrow> \<exists>c \<in> set k. \<not> isspace c"
proof -
  have "list_all (\<lambda>k. list_ex (\<lambda>c. \<not> isspace c) k) HIGH_RISK_KEYWORDS" by code_simp
  then show "k \<in> set HIGH_RISK_KEYWORDS \<Longrightarrow> \<exists>c \<in> set k. \<not> isspace c"
    by (auto simp: list_all_iff list_ex_iff)
qed

lemma patterns_need_ink:
  "p \<in> set MEDIUM_RISK_PATTERNS \<union> set LOW_RISK_PATTERNS \<Longrightarrow> needs_ink p"
proof -
  have "list_all needs_ink (MEDIUM_RISK_PATTERNS @ LOW_RISK_PATTERNS)" by code_simp
  then show "p \<in> set MEDIUM_RISK_PATTERNS \<union> set LOW_RISK_PATTERNS \<Longrightarrow> needs_ink p"
    by (auto simp: list_all_iff)
qed

lemma blank_no_tier:
  assumes "\<forall>c \<in> set t. isspace c"
  shows "\<not> has_high t" "\<not> has_medium t" "\<not> has_low t"
proof -
  show "\<not> has_high t"
  proof
    assume "has_high t"
    then obtain k where k: "k \<in> set HIGH_RISK_KEYWORDS" "sublist k t"
      by (auto simp: has_high_def)
    from keywords_have_ink [OF k(1)] obtain c where "c \<in> set k" "\<not> isspace c" by blast
    moreover have "set k \<subseteq> set t" using k(2) by (rule set_mono_sublist)
    ultimately show False using assms by blast
  qed
  show "\<not> has_medium t"
    using assms patterns_need_ink re_search_blank by (auto simp: has_medium_def)
  show "\<not> has_low t"
    using assms patterns_need_ink re_search_blank by (auto simp: has_low_def)
qed

lemma blank_scans:
  assumes "\<forall>c \<in> set t. isspace c"
  shows "low_risk_scan LOW_RISK_PATTERNS t
          (medium_risk_scan MEDIUM_RISK_PATTERNS t
            (high_risk_scan HIGH_RISK_KEYWORDS t ([], 0))) = ([], 0)"
    (is "?st = _")
proof -
  note nt = blank_no_tier [OF assms]
  have "snd ?st = 0" using nt by (simp add: scans_snd tier_def)
  moreover have "fst ?st = []"
    using nt low_scan_fst [of LOW_RISK_PATTERNS t] medium_scan_fst [of MEDIUM_RISK_PATTERNS t]
      high_scan_fst [of HIGH_RISK_KEYWORDS t]
    by (simp add: has_high_def has_medium_def has_low_def)
  ultimately show ?thesis by (simp add: prod_eq_iff)
qed

lemma round1_zero: "round1 0 = 0"
  by (simp add: round1_def)

section \<open>Doubles\<close>

lemma round_even_of_int: "round_even (of_int n) = n"
  by (simp add: round_even_def)

lemma round_even_near: "\<bar>of_int (round_even z) - z\<bar> \<le> 1 / 2"
proof -
  have "of_int \<lfloor>z\<rfloor> \<le> z" "z < of_int \<lfloor>z\<rfloor> + 1" by linarith+
  then show ?thesis by (auto simp: round_even_def Let_def)
qed

lemma ulp_exp_bounds:
  assumes "1 / 2 \<le> \<bar>x\<bar>" and "\<bar>x\<bar> < 2048"
  shows "- 53 \<le> ulp_exp x" and "ulp_exp x \<le> - 42"
proof -
  have pos: "0 < \<bar>x\<bar>" using assms(1) by simp
  have "log 2 (1 / 2) \<le> log 2 \<bar>x\<bar>" using assms(1) pos by (subst log_le_cancel_iff) simp_all
  moreover have "log 2 (1 / 2) = - 1" by (simp add: log_divide)
  ultimately have lo: "- 1 \<le> \<lfloor>log 2 \<bar>x\<bar>\<rfloor>" by (simp add: le_floor_iff)
  have "log 2 \<bar>x\<bar> < log 2 2048" using assms(2) pos by (subst log_less_cancel_iff) simp_all
  moreover have "log 2 2048 = 11"
  proof -
    have "(2048 :: real) = 2 ^ 11" by simp
    then show ?thesis by (simp only: log_pow_cancel)
  qed
  ultimately have hi: "\<lfloor>log 2 \<bar>x\<bar>\<rfloor> \<le> 10" by (simp add: floor_le_iff)
  from lo hi show "- 53 \<le> ulp_exp x" "ulp_exp x \<le> - 42" by (simp_all add: ulp_exp_def)
qed

text \<open>Halves of integers below 2048 in size are doubles.\<close>

lemma fl_half_int:
  assumes "2 * x \<in> \<int>" and "\<bar>x\<bar> < 2048"
  shows "fl x = x"
proof (cases "x = 0")
  case True
  then show ?thesis by (simp add: fl_def)
next
  case False
  from assms(1) obtain m :: int where m: "2 * x = of_int m" by (auto elim: Ints_cases)
  with False have "m \<noteq> 0" by auto
  then have "1 \<le> \<bar>m\<bar>" by simp
  then have "1 \<le> \<bar>2 * x\<bar>" unfolding m by (simp only: of_int_abs [symmetric] of_int_1_le_iff)
  then have half: "1 / 2 \<le> \<bar>x\<bar>" by simp
  note b = ulp_exp_bounds [OF half assms(2)]
  define j where "j = nat (- ulp_exp x - 1)"
  have q: "ulp_exp x = - (int j + 1)" using b by (simp add: j_def)
  have "real_of_int (ulp_exp x) = - real (j + 1)" unfolding q by simp
  moreover have "(2 :: real) powr (- real (j + 1)) = 1 / 2 ^ (j + 1)"
  proof -
    have "(2 :: real) powr real (j + 1) = 2 ^ (j + 1)" by (rule powr_realpow) simp
    then show ?thesis by (simp only: powr_minus inverse_eq_divide)
  qed
  ultimately have p: "(2 :: real) powr ulp_exp x = 1 / 2 ^ (j + 1)" by simp
  have "x / 2 powr ulp_exp x = x * 2 ^ (j + 1)" unfolding p by simp
  also have "\<dots> = of_int m * 2 ^ j" using m by simp
  also have "\<dots> = of_int (m * 2 ^ j)" by simp
  finally have "round_even (x / 2 powr ulp_exp x) = m * 2 ^ j"
    by (simp only: round_even_of_int)
  then have "fl x = of_int (m * 2 ^ j) * (1 / 2 ^ (j + 1))"
    using False by (simp add: fl_def p)
  also have "\<dots> = of_int m / 2" by simp
  also have "\<dots> = x" using m by simp
  finally show ?thesis .
qed

text \<open>Below 128 in size a double is at most \<open>2 ^ - 47\<close> away.\<close>

lemma fl_near:
  assumes "\<bar>x\<bar> < 128"
  shows "\<bar>fl x - x\<bar> \<le> 1 / 2 ^ 47"
proof (cases "x = 0")
  case True
  then show ?thesis by (simp add: fl_def)
next
  case False
  then have pos: "0 < \<bar>x\<bar>" by simp
  have "log 2 \<bar>x\<bar> < log 2 128" using assms pos by (subst log_less_cancel_iff) simp_all
  moreover have "log 2 128 = 7"
  proof -
    have "(128 :: real) = 2 ^ 7" by simp
    then show ?thesis by (simp only: log_pow_cancel)
  qed
  ultimately have "\<lfloor>log 2 \<bar>x\<bar>\<rfloor> \<le> 6" by (simp add: floor_le_iff)
  then have q: "ulp_exp x \<le> - 46" by (simp add: ulp_exp_def)
  define u where "u = (2 :: real) powr ulp_exp x"
  have upos: "0 < u" by (simp add: u_def)
  have "u \<le> 2 powr (- 46)" unfolding u_def using q by (simp add: powr_mono)
  also have "(2 :: real) powr (- 46) = 1 / 2 ^ 46"
    using powr_real_of_int [of 2 "- 46"] by simp
  finally have ule: "u \<le> 1 / 2 ^ 46" .
  have "fl x - x = (of_int (round_even (x / u)) - x / u) * u"
    using False upos by (simp add: fl_def u_def algebra_simps)
  then have "\<bar>fl x - x\<bar> = \<bar>of_int (round_even (x / u)) - x / u\<bar> * u"
    using upos by (simp add: abs_mult)
  also have "\<dots> \<le> (1 / 2) * u"
    using round_even_near [of "x / u"] upos by (intro mult_right_mono) simp_all
  also have "\<dots> \<le> (1 / 2) * (1 / 2 ^ 46)" using ule by simp
  finally show ?thesis by simp
qed

lemma fl_cmp:
  assumes "5 * y \<in> \<int>" and "2 * x \<in> \<int>" and "\<bar>y\<bar> < 128"
  shows "fl y < x \<longleftrightarrow> y < x" and "x < fl y \<longleftrightarrow> x < y"
proof -
  have "2 * (5 * y) \<in> \<int>" by (rule Ints_mult) (simp, rule assms(1))
  moreover have "5 * (2 * x) \<in> \<int>" by (rule Ints_mult) (simp, rule assms(2))
  ultimately have "2 * (5 * y) - 5 * (2 * x) \<in> \<int>" by (rule Ints_diff)
  then obtain k :: int where k: "10 * (y - x) = of_int k"
    by (auto elim!: Ints_cases simp: algebra_simps)
  have "\<bar>fl y - y\<bar> \<le> 1 / 2 ^ 47" using assms(3) by (rule fl_near)
  moreover have "(1 :: real) / 2 ^ 47 < 1 / 10" by simp
  ultimately have "\<bar>fl y - y\<bar> < 1 / 10" by (rule le_less_trans)
  then have near: "fl y < y + 1 / 10" "y - 1 / 10 < fl y" by linarith+
  consider "k \<le> - 1" | "k = 0" | "1 \<le> k" by linarith
  then have "(fl y < x \<longleftrightarrow> y < x) \<and> (x < fl y \<longleftrightarrow> x < y)"
  proof cases
    case 1
    then have "of_int k \<le> (- 1 :: real)" by (metis of_int_le_iff of_int_minus of_int_1)
    with k have "y \<le> x - 1 / 10" by simp
    with near show ?thesis by auto
  next
    case 2
    with k have "y = x" by simp
    moreover from this assms(2,3) have "fl y = y" by (intro fl_half_int) simp_all
    ultimately show ?thesis by simp
  next
    case 3
    then have "(1 :: real) \<le> of_int k" by simp
    with k have "x + 1 / 10 \<le> y" by simp
    with near show ?thesis by auto
  qed
  then show "fl y < x \<longleftrightarrow> y < x" and "x < fl y \<longleftrightarrow> x < y" by simp_all
qed

lemma foldl_fl_exact:
  assumes "\<forall>x \<in> set xs. x \<in> \<int> \<and> 0 \<le> x" and "a \<in> \<int>" and "0 \<le> a"
    and "a + sum_list xs < 2048"
  shows "foldl (\<lambda>acc x. fl (acc + x)) a xs = a + sum_list xs"
  using assms
proof (induction xs arbitrary: a)
  case Nil
  then show ?case by simp
next
  case (Cons x xs)
  have nn: "0 \<le> sum_list xs" using Cons.prems(1) by (intro sum_list_nonneg) simp
  have "a + x \<in> \<int>" using Cons.prems by simp
  then have "2 * (a + x) \<in> \<int>" by (intro Ints_mult) simp_all
  moreover have "\<bar>a + x\<bar> < 2048" using Cons.prems nn by simp
  ultimately have e: "fl (a + x) = a + x" by (rule fl_half_int)
  have "foldl (\<lambda>acc x. fl (acc + x)) (a + x) xs = (a + x) + sum_list xs"
    using Cons.prems nn by (intro Cons.IH) simp_all
  with e show ?case by simp
qed

lemma py_sum_exact:
  assumes "\<forall>x \<in> set xs. x \<in> \<int> \<and> 0 \<le> x \<and> x \<le> 100" and "length xs \<le> 5"
  shows "py_sum xs = sum_list xs"
proof -
  have "sum_list xs \<le> 100 * real (length xs)"
    using assms(1) by (induction xs) (auto simp: algebra_simps)
  with assms(2) have "0 + sum_list xs < 2048" by simp
  with assms(1) show ?thesis unfolding py_sum_def by (subst foldl_fl_exact) simp_all
qed

lemma sum_list_bounds:
  assumes "\<forall>x \<in> set xs. x \<in> \<int> \<and> 0 \<le> x \<and> x \<le> 100"
  shows "sum_list xs \<in> \<int>" "0 \<le> sum_list xs" "sum_list xs \<le> 100 * real (length xs)"
  using assms by (induction xs) (auto simp: algebra_simps)

lemma compute_trend_short: "length scores < 5 \<Longrightarrow> compute_trend scores = ''insufficient_data''"
  by (simp add: compute_trend_def)

lemma compute_trend_seven:
  assumes len: "length scores = 7"
    and ok: "\<forall>x \<in> set scores. x \<in> \<int> \<and> 0 \<le> x \<and> x \<le> 100"
  shows "compute_trend scores =
     (if sum_list (take 5 scores) / 5 < sum_list (drop 5 scores) / 2 - 5 then ''improving''
      else if sum_list (drop 5 scores) / 2 + 5 < sum_list (take 5 scores) / 5 then ''worsening''
      else ''stable'')"
proof -
  let ?S = "sum_list (take 5 scores)" and ?T = "sum_list (drop 5 scores)"
  have okS: "\<forall>x \<in> set (take 5 scores). x \<in> \<int> \<and> 0 \<le> x \<and> x \<le> 100"
    using ok by (auto dest: in_set_takeD)
  have okT: "\<forall>x \<in> set (drop 5 scores). x \<in> \<int> \<and> 0 \<le> x \<and> x \<le> 100"
    using ok by (auto dest: in_set_dropD)
  have lS: "length (take 5 scores) = 5" and lT: "length (drop 5 scores) = 2" using len by simp_all
  have S: "py_sum (take 5 scores) = ?S" using okS lS by (intro py_sum_exact) simp_all
  have T: "py_sum (drop 5 scores) = ?T" using okT lT by (intro py_sum_exact) simp_all
  note bS = sum_list_bounds [OF okS] and bT = sum_list_bounds [OF okT]
  have S5: "5 * (?S / 5) \<in> \<int>" using bS(1) by simp
  have Sr: "\<bar>?S / 5\<bar> < 128" using bS(2,3) lS by simp
  have T2: "2 * (?T / 2) \<in> \<int>" using bT(1) by simp
  have Tr: "0 \<le> ?T / 2" "?T / 2 \<le> 100" using bT(2,3) lT by simp_all
  have older: "fl (?T / 2) = ?T / 2" using T2 Tr by (intro fl_half_int) simp_all
  have m: "2 * (?T / 2 - 5) \<in> \<int>" "2 * (?T / 2 + 5) \<in> \<int>"
    using bT(1) by (simp_all add: algebra_simps)
  have lo: "fl (?T / 2 - 5) = ?T / 2 - 5" using m(1) Tr by (intro fl_half_int) simp_all
  have hi: "fl (?T / 2 + 5) = ?T / 2 + 5" using m(2) Tr by (intro fl_half_int) simp_all
  have c1: "fl (?S / 5) < ?T / 2 - 5 \<longleftrightarrow> ?S / 5 < ?T / 2 - 5"
    using S5 m(1) Sr by (rule fl_cmp(1))
  have c2: "?T / 2 + 5 < fl (?S / 5) \<longleftrightarrow> ?T / 2 + 5 < ?S / 5"
    using S5 m(2) Sr by (rule fl_cmp(2))
  have tk: "take 5 (drop 5 scores) = drop 5 scores" using len by simp
  have "compute_trend scores =
     (if fl (?S / 5) < fl (fl (?T / 2) - 5) then ''improving''
      else if fl (fl (?T / 2) + 5) < fl (?S / 5) then ''worsening''
      else ''stable'')"
    using len by (simp add: compute_trend_def Let_def tk S T lT)
  then show ?thesis by (simp only: older lo hi c1 c2)
qed

section \<open>The risk history, the companion and the stored scores\<close>

lemma get_risk_scores_valid:
  "list_all valid_risk_score docs \<Longrightarrow>
     get_risk_scores docs =
       Inr \<lparr>history_scores = docs,
            current_level = (case docs of [] \<Rightarrow> ''LOW'' | d # _ \<Rightarrow> entry_level d),
            trend = compute_trend (map entry_score docs)\<rparr>"
  by (simp add: get_risk_scores_def)

lemma valid_scores_range:
  assumes "list_all valid_risk_score docs" and "\<forall>d \<in> set docs. entry_score d \<in> \<int>"
  shows "\<forall>x \<in> set (map entry_score docs). x \<in> \<int> \<and> 0 \<le> x \<and> x \<le> 100"
  using assms by (auto simp: list_all_iff valid_risk_score_def)


lemma detect_risk_storable:
  "level (detect_risk t e s) \<in> set [''LOW'', ''MEDIUM'', ''HIGH'']
   \<and> score (detect_risk t e s) \<in> \<int>
   \<and> 0 \<le> score (detect_risk t e s) \<and> score (detect_risk t e s) \<le> 100"
proof (cases "t = []")
  case True
  then show ?thesis by (simp add: detect_risk_def)
next
  case False
  then show ?thesis
    using final_of_range [of t e s] final_of_Ints [of t e s]
    by (simp add: detect_risk_score detect_risk_level level_of_def)
qed

lemma pipeline_risk_storable:
  "level (pipeline_risk sv m) \<in> set [''LOW'', ''MEDIUM'', ''HIGH'']
   \<and> score (pipeline_risk sv m) \<in> \<int>
   \<and> 0 \<le> score (pipeline_risk sv m) \<and> score (pipeline_risk sv m) \<le> 100"
  using detect_risk_storable by (simp add: pipeline_risk_def)

text \<open>Every score that \<open>send_message\<close> stores is an integer that \<open>RiskScore\<close> accepts.\<close>

lemma stored_scores_integer:
  assumes "\<forall>d \<in> set (risk_scores db). valid_risk_score d \<and> entry_score d \<in> \<int>"
  shows "\<forall>d \<in> set (risk_scores (fst (send_message sv ws ts ts2 db uid m))).
           valid_risk_score d \<and> entry_score d \<in> \<int>"
  using assms pipeline_risk_storable [of sv m]
  by (cases "user_log_write ws"; cases "ai_log_write ws"; cases "risk_score_write ws";
      cases "alert_write ws")
     (auto simp: send_message_def Let_def valid_risk_score_def)

section \<open>Claims about the risk detector\<close>

text \<open>
  C1 (as amended).  A text whose lowercase form contains a high-risk phrase gets level
  HIGH and a score of at least 75, whatever the emotion and the sentiment; the score is at
  least 85 unless the emotion label lowercases to "joy", whose offset is -10.
\<close>

theorem high_keyword_gives_HIGH:
  assumes "keyword \<in> set HIGH_RISK_KEYWORDS" and "sublist keyword (lower t)"
  shows "level (detect_risk t emo sentiment) = ''HIGH''
       \<and> 75 \<le> score (detect_risk t emo sentiment)
       \<and> ((\<forall>e. emo = Some e \<longrightarrow> lower e \<noteq> ''joy'')
            \<longrightarrow> 85 \<le> score (detect_risk t emo sentiment))"
proof -
  have hh: "has_high (lower t)" using assms by (auto simp: has_high_def)
  then have ne: "t \<noteq> []" by (rule has_high_nonempty)
  have "75 \<le> final_of t emo sentiment" using hh by (rule final_of_high)
  moreover have "85 \<le> final_of t emo sentiment"
    if "\<forall>e. emo = Some e \<longrightarrow> lower e \<noteq> ''joy''"
    using hh emotion_delta_nonneg [OF that] by (rule final_of_high_no_joy)
  ultimately show ?thesis
    using ne by (simp add: detect_risk_score detect_risk_level level_of_def)
qed

theorem high_keyword_gives_HIGH_witness:
  "''kill myself'' \<in> set HIGH_RISK_KEYWORDS
   \<and> sublist ''kill myself'' (lower ''I want to kill myself'')
   \<and> level (detect_risk ''I want to kill myself'' (Some ''sadness'') (Some (- 0.9))) = ''HIGH''
   \<and> 85 \<le> score (detect_risk ''I want to kill myself'' (Some ''sadness'') (Some (- 0.9)))"
proof -
  have h1: "''kill myself'' \<in> set HIGH_RISK_KEYWORDS"
    by (simp add: HIGH_RISK_KEYWORDS_def)
  have h2: "sublist ''kill myself'' (lower ''I want to kill myself'')"
    by code_simp
  have "lower ''sadness'' \<noteq> ''joy''"
    by code_simp
  then have h3: "\<forall>e. Some ''sadness'' = Some e \<longrightarrow> lower e \<noteq> ''joy''"
    by simp
  from high_keyword_gives_HIGH [OF h1 h2, of "Some ''sadness''" "Some (- 0.9)"] h1 h2 h3
  show ?thesis by blast
qed

text \<open>
  C1 as stated fails: "suicide" with the emotion "joy" scores 85 - 10 = 75, which is
  HIGH but below 85.
\<close>

theorem high_keyword_score_counterexample:
  "''suicide'' \<in> set HIGH_RISK_KEYWORDS
   \<and> sublist ''suicide'' (lower ''suicide'')
   \<and> level (detect_risk ''suicide'' (Some ''joy'') None) = ''HIGH''
   \<and> score (detect_risk ''suicide'' (Some ''joy'') None) = 75
   \<and> \<not> 85 \<le> score (detect_risk ''suicide'' (Some ''joy'') None)"
  by code_simp

text \<open>
  C2.  For every text, emotion and sentiment the score lies in 0..100 and the level is
  fixed by the score: HIGH exactly from 70, MEDIUM exactly from 35 and below 70, LOW exactly
  below 35.
\<close>

theorem score_range_and_level:
  "0 \<le> score (detect_risk t emo sentiment)
   \<and> score (detect_risk t emo sentiment) \<le> 100
   \<and> (level (detect_risk t emo sentiment) = ''HIGH''
        \<longleftrightarrow> 70 \<le> score (detect_risk t emo sentiment))
   \<and> (level (detect_risk t emo sentiment) = ''MEDIUM''
        \<longleftrightarrow> 35 \<le> score (detect_risk t emo sentiment)
            \<and> score (detect_risk t emo sentiment) < 70)
   \<and> (level (detect_risk t emo sentiment) = ''LOW''
        \<longleftrightarrow> score (detect_risk t emo sentiment) < 35)"
proof (cases "t = []")
  case True
  then show ?thesis by (simp add: detect_risk_def)
next
  case False
  then show ?thesis
    using final_of_range [of t emo sentiment]
    by (simp add: detect_risk_score detect_risk_level level_of_def)
qed

theorem score_range_and_level_witness:
  "score (detect_risk ''I feel so hopeless'' (Some ''sadness'') (Some (- 0.7))) = 80
   \<and> level (detect_risk ''I feel so hopeless'' (Some ''sadness'') (Some (- 0.7))) = ''HIGH''"
proof -
  have "score (detect_risk ''I feel so hopeless'' (Some ''sadness'') (Some (- 0.7))) = 80"
    by code_simp
  with score_range_and_level [of "''I feel so hopeless''" "Some ''sadness''" "Some (- 0.7)"]
  show ?thesis by simp
qed

text \<open>
  C6.  A text that matches a low-risk pattern but no high-risk keyword and no medium-risk
  pattern scores strictly less than a text that contains a high-risk keyword, whatever
  emotion and sentiment go with either call.
\<close>

theorem low_tier_below_high_tier:
  assumes "\<not> has_high (lower t1)" and "\<not> has_medium (lower t1)" and "has_low (lower t1)"
    and "has_high (lower t2)"
  shows "score (detect_risk t1 e1 s1) < score (detect_risk t2 e2 s2)"
proof -
  have ne: "t2 \<noteq> []" using assms(4) by (rule has_high_nonempty)
  have hi: "75 \<le> score (detect_risk t2 e2 s2)"
    using final_of_high [OF assms(4)] ne by (simp add: detect_risk_score)
  have lo: "score (detect_risk t1 e1 s1) \<le> 50"
  proof (cases "t1 = []")
    case True then show ?thesis by (simp add: detect_risk_def)
  next
    case False
    then show ?thesis
      using final_of_below_medium [OF assms(1,2)] by (simp add: detect_risk_score)
  qed
  from hi lo show ?thesis by simp
qed

theorem low_tier_below_high_tier_witness:
  "\<not> has_high (lower ''I am so stressed'') \<and> \<not> has_medium (lower ''I am so stressed'')
   \<and> has_low (lower ''I am so stressed'') \<and> has_high (lower ''suicide'')
   \<and> score (detect_risk ''I am so stressed'' (Some ''sadness'') (Some (- 0.9)))
       < score (detect_risk ''suicide'' (Some ''joy'') None)"
proof -
  have h1: "\<not> has_high (lower ''I am so stressed'')" by code_simp
  have h2: "\<not> has_medium (lower ''I am so stressed'')" by code_simp
  have h3: "has_low (lower ''I am so stressed'')" by code_simp
  have h4: "has_high (lower ''suicide'')" by code_simp
  from low_tier_below_high_tier [OF h1 h2 h3 h4, of "Some ''sadness''" "Some (- 0.9)" "Some ''joy''" None]
    h1 h2 h3 h4
  show ?thesis by blast
qed

text \<open>
  C9.  Whenever the quick crisis check answers True for a text, the full detector gives
  that text the level HIGH, whatever the emotion and the sentiment.
\<close>

theorem crisis_implies_HIGH:
  "check_for_crisis t \<Longrightarrow> level (detect_risk t emo sentiment) = ''HIGH''"
  by (rule has_high_level [OF crisis_has_high])

theorem crisis_implies_HIGH_witness:
  "check_for_crisis ''I am GOING to hurt myself''
   \<and> level (detect_risk ''I am GOING to hurt myself'' (Some ''joy'') (Some 0.9)) = ''HIGH''"
proof -
  have h: "check_for_crisis ''I am GOING to hurt myself''" by code_simp
  from crisis_implies_HIGH [OF h, of "Some ''joy''" "Some 0.9"] h show ?thesis by blast
qed

text \<open>
  C4 (as amended).  Every crisis indicator other than "going to hurt myself" is an element
  of the high-risk keyword list, and every crisis indicator contains a high-risk keyword as
  a substring ("going to hurt myself" contains "hurt myself").
\<close>

theorem crisis_indicators_in_high_risk:
  "c \<in> set crisis_indicators \<Longrightarrow>
     (c \<noteq> ''going to hurt myself'' \<longrightarrow> c \<in> set HIGH_RISK_KEYWORDS)
     \<and> (\<exists>k \<in> set HIGH_RISK_KEYWORDS. sublist k c)"
  using crisis_indicator_covered [of c] by blast

theorem crisis_indicators_in_high_risk_witness:
  "''suicide'' \<in> set crisis_indicators \<and> ''suicide'' \<noteq> ''going to hurt myself''
   \<and> ''suicide'' \<in> set HIGH_RISK_KEYWORDS
   \<and> (\<exists>k \<in> set HIGH_RISK_KEYWORDS. sublist k ''suicide'')"
proof -
  have h: "''suicide'' \<in> set crisis_indicators" by (simp add: crisis_indicators_def)
  have n: "''suicide'' \<noteq> ''going to hurt myself''" by simp
  from crisis_indicators_in_high_risk [OF h] h n show ?thesis by blast
qed

text \<open>
  C4 as stated fails: "going to hurt myself" is a crisis indicator and is not an element
  of the high-risk keyword list.
\<close>

theorem crisis_indicators_subset_counterexample:
  "''going to hurt myself'' \<in> set crisis_indicators
   \<and> ''going to hurt myself'' \<notin> set HIGH_RISK_KEYWORDS"
  by (simp add: crisis_indicators_def HIGH_RISK_KEYWORDS_def)

text \<open>
  C10.  When the detector returns the level MEDIUM or HIGH, the list of factors it returns
  is not empty.
\<close>

theorem elevated_level_has_factors:
  assumes "level (detect_risk t emo sentiment) = ''MEDIUM''
           \<or> level (detect_risk t emo sentiment) = ''HIGH''"
  shows "factors (detect_risk t emo sentiment) \<noteq> []"
proof -
  have ne: "t \<noteq> []" using assms by (auto simp: detect_risk_def)
  with assms have "35 \<le> final_of t emo sentiment"
    by (auto simp: detect_risk_level level_of_def split: if_splits)
  then have "0 < tier (lower t)" by (rule final_of_medium_tier)
  then show ?thesis using ne by (intro factors_nonempty) (simp_all add: tier_positive_iff)
qed

theorem elevated_level_has_factors_witness:
  "level (detect_risk ''nobody cares'' None None) = ''MEDIUM''
   \<and> factors (detect_risk ''nobody cares'' None None) \<noteq> []"
proof -
  have h: "level (detect_risk ''nobody cares'' None None) = ''MEDIUM''" by code_simp
  from elevated_level_has_factors [of "''nobody cares''" None None] h show ?thesis by blast
qed

section \<open>Claims about blank input\<close>

text \<open>
  C5.  On an empty or whitespace-only text, with no emotion and no sentiment supplied, the
  classifier returns neutral with confidence 0, the analyzer returns the score 0 with the
  polarity neutral, and the detector returns LOW, 0 and no factors.  All three are total
  functions here, the failures of a backend being values that this path never reads.
\<close>

theorem blank_text_defaults:
  assumes "strip t = []"
  shows "classify_emotion classifier t = \<lparr>emotion = ''neutral'', confidence = 0\<rparr>
       \<and> analyze_sentiment analyzer t = \<lparr>sentiment_score = 0, polarity = ''neutral''\<rparr>
       \<and> detect_risk t None None = \<lparr>level = ''LOW'', score = 0, factors = []\<rparr>"
proof -
  from assms have blank: "\<forall>c \<in> set t. isspace c" by (simp add: strip_Nil_iff)
  then have low: "lower t = t" by (rule lower_blank)
  have "detect_risk t None None = \<lparr>level = ''LOW'', score = 0, factors = []\<rparr>"
    by (simp add: detect_risk_def Let_def low blank_scans [OF blank] round1_zero)
  then show ?thesis using assms by (simp add: classify_emotion_def analyze_sentiment_def)
qed

theorem blank_text_defaults_witness:
  "strip [CHR '' '', CHR 0x0A, CHR 0x09] = []
   \<and> classify_emotion (Backend (\<lambda>_. None)) [CHR '' '', CHR 0x0A, CHR 0x09]
       = \<lparr>emotion = ''neutral'', confidence = 0\<rparr>
   \<and> analyze_sentiment Fallback [CHR '' '', CHR 0x0A, CHR 0x09]
       = \<lparr>sentiment_score = 0, polarity = ''neutral''\<rparr>
   \<and> detect_risk [CHR '' '', CHR 0x0A, CHR 0x09] None None
       = \<lparr>level = ''LOW'', score = 0, factors = []\<rparr>"
proof -
  have h: "strip [CHR '' '', CHR 0x0A, CHR 0x09] = []" by code_simp
  from blank_text_defaults [OF h, of "Backend (\<lambda>_. None)" Fallback] h
  show ?thesis by blast
qed

section \<open>Claims about the reply, the alerts and the trend\<close>

text \<open>
  C3 (as amended).  On entries that pass validation \<open>get_risk_scores\<close> returns a
  history.  For fewer than five entries its trend is "insufficient_data".  For seven
  entries with integer scores, as the chat pipeline stores them, newest first, its trend
  is "improving" when the average of the five most recent scores is more than 5 points
  below the average of the two before them, otherwise "worsening" when it is more than 5
  points above, and otherwise "stable", so also at a difference of exactly 5 points.
\<close>

theorem risk_history_trend:
  assumes "list_all valid_risk_score docs"
  shows "\<exists>h. get_risk_scores docs = Inr h
     \<and> (length docs < 5 \<longrightarrow> trend h = ''insufficient_data'')
     \<and> (length docs = 7 \<and> (\<forall>d \<in> set docs. entry_score d \<in> \<int>) \<longrightarrow>
          trend h =
            (if sum_list (map entry_score (take 5 docs)) / 5
                  < sum_list (map entry_score (drop 5 docs)) / 2 - 5 then ''improving''
             else if sum_list (map entry_score (drop 5 docs)) / 2 + 5
                  < sum_list (map entry_score (take 5 docs)) / 5 then ''worsening''
             else ''stable''))"
proof -
  let ?h = "\<lparr>history_scores = docs,
            current_level = (case docs of [] \<Rightarrow> ''LOW'' | d # _ \<Rightarrow> entry_level d),
            trend = compute_trend (map entry_score docs)\<rparr>"
  have g: "get_risk_scores docs = Inr ?h" using assms by (rule get_risk_scores_valid)
  have short: "trend ?h = ''insufficient_data''" if "length docs < 5"
    using that by (simp add: compute_trend_short)
  have seven: "trend ?h =
            (if sum_list (map entry_score (take 5 docs)) / 5
                  < sum_list (map entry_score (drop 5 docs)) / 2 - 5 then ''improving''
             else if sum_list (map entry_score (drop 5 docs)) / 2 + 5
                  < sum_list (map entry_score (take 5 docs)) / 5 then ''worsening''
             else ''stable'')"
    if "length docs = 7 \<and> (\<forall>d \<in> set docs. entry_score d \<in> \<int>)"
  proof -
    from that have len: "length (map entry_score docs) = 7" by simp
    from that have ok: "\<forall>x \<in> set (map entry_score docs). x \<in> \<int> \<and> 0 \<le> x \<and> x \<le> 100"
      using assms by (intro valid_scores_range) simp_all
    show ?thesis using compute_trend_seven [OF len ok] by (simp add: take_map drop_map)
  qed
  from g short seven show ?thesis by blast
qed

theorem risk_history_trend_witness:
  "list_all valid_risk_score
     [low_entry 7 16, low_entry 6 15, low_entry 5 15, low_entry 4 15, low_entry 3 15,
      low_entry 2 10, low_entry 1 10]
   \<and> (\<exists>h. get_risk_scores
             [low_entry 7 16, low_entry 6 15, low_entry 5 15, low_entry 4 15, low_entry 3 15,
              low_entry 2 10, low_entry 1 10] = Inr h
          \<and> trend h = ''worsening'')
   \<and> list_all valid_risk_score [low_entry 3 20, low_entry 2 30, low_entry 1 10]
   \<and> (\<exists>h. get_risk_scores [low_entry 3 20, low_entry 2 30, low_entry 1 10] = Inr h
          \<and> trend h = ''insufficient_data'')"
proof -
  let ?D = "[low_entry 7 16, low_entry 6 15, low_entry 5 15, low_entry 4 15, low_entry 3 15,
             low_entry 2 10, low_entry 1 10]"
  let ?E = "[low_entry 3 20, low_entry 2 30, low_entry 1 10]"
  have v7: "list_all valid_risk_score ?D" by (simp add: valid_risk_score_def low_entry_def)
  have v3: "list_all valid_risk_score ?E" by (simp add: valid_risk_score_def low_entry_def)
  have i7: "length ?D = 7 \<and> (\<forall>d \<in> set ?D. entry_score d \<in> \<int>)" by (simp add: low_entry_def)
  have s7: "sum_list (map entry_score (take 5 ?D)) / 5 = 76 / 5"
    "sum_list (map entry_score (drop 5 ?D)) / 2 = 10"
    by (simp_all add: low_entry_def)
  from risk_history_trend [OF v7] obtain h
    where h: "get_risk_scores ?D = Inr h"
      and t: "length ?D = 7 \<and> (\<forall>d \<in> set ?D. entry_score d \<in> \<int>) \<longrightarrow>
          trend h =
            (if sum_list (map entry_score (take 5 ?D)) / 5
                  < sum_list (map entry_score (drop 5 ?D)) / 2 - 5 then ''improving''
             else if sum_list (map entry_score (drop 5 ?D)) / 2 + 5
                  < sum_list (map entry_score (take 5 ?D)) / 5 then ''worsening''
             else ''stable'')"
    by blast
  from t i7 have "trend h =
            (if sum_list (map entry_score (take 5 ?D)) / 5
                  < sum_list (map entry_score (drop 5 ?D)) / 2 - 5 then ''improving''
             else if sum_list (map entry_score (drop 5 ?D)) / 2 + 5
                  < sum_list (map entry_score (take 5 ?D)) / 5 then ''worsening''
             else ''stable'')"
    by (rule mp)
  then have "trend h = ''worsening''" unfolding s7 by simp
  with h have w7: "\<exists>h. get_risk_scores ?D = Inr h \<and> trend h = ''worsening''" by blast
  have l3: "length ?E < 5" by simp
  from risk_history_trend [OF v3] l3
  have w3: "\<exists>h. get_risk_scores ?E = Inr h \<and> trend h = ''insufficient_data''" by blast
  from v7 w7 v3 w3 show ?thesis by blast
qed

text \<open>
  C3 as stated fails at a difference of exactly 5 points: the comparison is strict, and
  the trend is "stable".
\<close>

theorem trend_at_five_points_counterexample:
  "list_all valid_risk_score
     [low_entry 7 15, low_entry 6 15, low_entry 5 15, low_entry 4 15, low_entry 3 15,
      low_entry 2 10, low_entry 1 10]
   \<and> sum_list (map entry_score (drop 5
        [low_entry 7 15, low_entry 6 15, low_entry 5 15, low_entry 4 15, low_entry 3 15,
         low_entry 2 10, low_entry 1 10])) / 2 + 5
      \<le> sum_list (map entry_score (take 5
        [low_entry 7 15, low_entry 6 15, low_entry 5 15, low_entry 4 15, low_entry 3 15,
         low_entry 2 10, low_entry 1 10])) / 5
   \<and> get_risk_scores
        [low_entry 7 15, low_entry 6 15, low_entry 5 15, low_entry 4 15, low_entry 3 15,
         low_entry 2 10, low_entry 1 10]
      = Inr \<lparr>history_scores =
               [low_entry 7 15, low_entry 6 15, low_entry 5 15, low_entry 4 15, low_entry 3 15,
                low_entry 2 10, low_entry 1 10],
             current_level = ''LOW'', trend = ''stable''\<rparr>"
proof -
  let ?D = "[low_entry 7 15, low_entry 6 15, low_entry 5 15, low_entry 4 15, low_entry 3 15,
             low_entry 2 10, low_entry 1 10]"
  have v: "list_all valid_risk_score ?D" by (simp add: valid_risk_score_def low_entry_def)
  have "compute_trend [15, 15, 15, 15, 15, 10, 10] = ''stable''"
    by (subst compute_trend_seven) simp_all
  then have "compute_trend (map entry_score ?D) = ''stable''" by (simp add: low_entry_def)
  then have "get_risk_scores ?D
      = Inr \<lparr>history_scores = ?D, current_level = ''LOW'', trend = ''stable''\<rparr>"
    using get_risk_scores_valid [OF v] by (simp add: low_entry_def)
  moreover have "sum_list (map entry_score (drop 5 ?D)) / 2 + 5
      \<le> sum_list (map entry_score (take 5 ?D)) / 5"
    by (simp add: low_entry_def)
  ultimately show ?thesis using v by blast
qed




text \<open>
  C8 (as amended).  \<open>send_message\<close> adds an alert only for an assessment of level
  HIGH, and the alert it adds carries the level HIGH.  For a HIGH assessment the alert is
  added exactly when the three writes before it return and the alert write stores its
  document; a write that raises ends the request with the error.  A response is returned
  exactly when no attempted write raises, and then an alert was added if and only if the
  level is HIGH.
\<close>

theorem alert_written_iff:
  "alerts (fst (send_message sv ws ts ts2 db uid message)) =
     (if level (pipeline_risk sv message) = ''HIGH''
         \<and> user_log_write ws = Acknowledged \<and> ai_log_write ws = Acknowledged
         \<and> risk_score_write ws = Acknowledged \<and> alert_write ws \<noteq> Rejected
      then alerts db @
           [\<lparr>alert_user_id = uid, risk_level = ''HIGH'', trigger_message = message,
             created_at = ts, resolved = False, resolved_at = None, alert_notes = None\<rparr>]
      else alerts db)
   \<and> ((\<exists>resp. snd (send_message sv ws ts ts2 db uid message) = Inr resp) \<longleftrightarrow>
        user_log_write ws = Acknowledged \<and> ai_log_write ws = Acknowledged
        \<and> risk_score_write ws = Acknowledged
        \<and> (level (pipeline_risk sv message) = ''HIGH'' \<longrightarrow> alert_write ws = Acknowledged))
   \<and> ((\<exists>resp. snd (send_message sv ws ts ts2 db uid message) = Inr resp) \<longrightarrow>
        (alerts (fst (send_message sv ws ts ts2 db uid message)) =
           alerts db @
           [\<lparr>alert_user_id = uid, risk_level = ''HIGH'', trigger_message = message,
             created_at = ts, resolved = False, resolved_at = None, alert_notes = None\<rparr>]
         \<longleftrightarrow> level (pipeline_risk sv message) = ''HIGH''))"
  by (cases "user_log_write ws"; cases "ai_log_write ws"; cases "risk_score_write ws";
      cases "alert_write ws")
     (simp_all add: send_message_def Let_def)

theorem alert_written_iff_witness:
  "level (pipeline_risk \<lparr>AI_AVAILABLE = True, emotion_classifier = Fallback,
                          sentiment_analyzer = Fallback, llm_client = Mock\<rparr>
            ''I want to kill myself'') = ''HIGH''
   \<and> alerts (fst (send_message
                     \<lparr>AI_AVAILABLE = True, emotion_classifier = Fallback,
                      sentiment_analyzer = Fallback, llm_client = Mock\<rparr>
                     \<lparr>user_log_write = Acknowledged, ai_log_write = Acknowledged,
                      risk_score_write = Acknowledged, alert_write = Acknowledged\<rparr>
                     7 8 \<lparr>chat_logs = [], risk_scores = [], alerts = []\<rparr>
                     ''u1'' ''I want to kill myself''))
       = [\<lparr>alert_user_id = ''u1'', risk_level = ''HIGH'',
           trigger_message = ''I want to kill myself'',
           created_at = 7, resolved = False, resolved_at = None, alert_notes = None\<rparr>]
   \<and> (\<exists>resp. snd (send_message
                     \<lparr>AI_AVAILABLE = True, emotion_classifier = Fallback,
                      sentiment_analyzer = Fallback, llm_client = Mock\<rparr>
                     \<lparr>user_log_write = Acknowledged, ai_log_write = Acknowledged,
                      risk_score_write = Acknowledged, alert_write = Acknowledged\<rparr>
                     7 8 \<lparr>chat_logs = [], risk_scores = [], alerts = []\<rparr>
                     ''u1'' ''I want to kill myself'') = Inr resp)
   \<and> level (pipeline_risk \<lparr>AI_AVAILABLE = True, emotion_classifier = Fallback,
                            sentiment_analyzer = Fallback, llm_client = Mock\<rparr>
              ''I am so stressed'') \<noteq> ''HIGH''
   \<and> alerts (fst (send_message
                     \<lparr>AI_AVAILABLE = True, emotion_classifier = Fallback,
                      sentiment_analyzer = Fallback, llm_client = Mock\<rparr>
                     \<lparr>user_log_write = Acknowledged, ai_log_write = Acknowledged,
                      risk_score_write = Acknowledged, alert_write = Acknowledged\<rparr>
                     7 8 \<lparr>chat_logs = [], risk_scores = [], alerts = []\<rparr>
                     ''u1'' ''I am so stressed'')) = []"
proof -
  let ?sv = "\<lparr>AI_AVAILABLE = True, emotion_classifier = Fallback,
              sentiment_analyzer = Fallback, llm_client = Mock\<rparr>"
  let ?ws = "\<lparr>user_log_write = Acknowledged, ai_log_write = Acknowledged,
              risk_score_write = Acknowledged, alert_write = Acknowledged\<rparr>"
  let ?db = "\<lparr>chat_logs = [], risk_scores = [], alerts = []\<rparr>"
  have h1: "level (pipeline_risk ?sv ''I want to kill myself'') = ''HIGH''" by code_simp
  have h2: "level (pipeline_risk ?sv ''I am so stressed'') \<noteq> ''HIGH''" by code_simp
  from alert_written_iff [of ?sv ?ws 7 8 ?db "''u1''" "''I want to kill myself''"]
    alert_written_iff [of ?sv ?ws 7 8 ?db "''u1''" "''I am so stressed''"] h1 h2
  show ?thesis by simp
qed

text \<open>
  C8 as stated fails when a write raises: the message is assessed HIGH, the write of the
  risk score raises, and the request ends with the error and no alert.
\<close>

theorem high_without_alert_counterexample:
  "level (pipeline_risk \<lparr>AI_AVAILABLE = True, emotion_classifier = Fallback,
                          sentiment_analyzer = Fallback, llm_client = Mock\<rparr>
            ''I want to kill myself'') = ''HIGH''
   \<and> send_message
        \<lparr>AI_AVAILABLE = True, emotion_classifier = Fallback,
         sentiment_analyzer = Fallback, llm_client = Mock\<rparr>
        \<lparr>user_log_write = Acknowledged, ai_log_write = Acknowledged,
         risk_score_write = Rejected, alert_write = Acknowledged\<rparr>
        7 8 \<lparr>chat_logs = [], risk_scores = [], alerts = []\<rparr>
        ''u1'' ''I want to kill myself''
      = (\<lparr>chat_logs =
            [\<lparr>log_user_id = ''u1'', log_message = ''I want to kill myself'',
              log_role = ''user'', log_timestamp = 7, log_emotion = Some ''neutral'',
              log_emotion_confidence = Some 0.5, log_sentiment_score = Some 0,
              log_sentiment_polarity = Some ''neutral''\<rparr>,
             \<lparr>log_user_id = ''u1'',
              log_message =
                ''I hear that you're going through something really painful right now. '' @
                ''I want you to know that you're not alone, and what you're feeling matters. '' @
                ''Would it be possible to talk to someone you trust about this? '' @
                ''I'm here to listen, and I care about you.'',
              log_role = ''ai'', log_timestamp = 8, log_emotion = None,
              log_emotion_confidence = None, log_sentiment_score = None,
              log_sentiment_polarity = None\<rparr>],
          risk_scores = [], alerts = []\<rparr>,
         Inl WriteFailed)"
  by code_simp

end
